theory Spec2Isabelle
  imports Main
begin

section \<open>Data model (types.ts, App.tsx)\<close>

text \<open>
  Image references are URLs, that is strings. The three image caches of a layer are
  JavaScript objects: they are shared by reference between the layers that a spread
  \<^verbatim>\<open>{ ...layer }\<close> copies, and three of the reducers below assign into them. So they live in an
  explicit object store: a layer holds addresses, the store holds the objects. An object
  is the list of its properties in insertion order (the order \<^verbatim>\<open>Object.values\<close> and
  \<^verbatim>\<open>Object.keys\<close> follow for keys that are not array indices). Layers, history arrays
  and snapshots are never assigned into after they have been shared, so they are values.
\<close>

type_synonym url = string
type_synonym ref = nat
type_synonym pmap = "(string \<times> url) list"
type_synonym heap = "pmap list"

datatype Category = Top | Accessory

record WardrobeItem =
  id' :: string
  name :: string
  url :: url
  category :: Category

record OutfitLayer =
  garment :: "WardrobeItem option"
  poseImages :: ref
  backgroundModifiedImages :: "ref option"
  lightingModifiedImages :: "ref option"

record AppStateSnapshot =
  outfitHistory :: "OutfitLayer list"
  currentOutfitIndex :: int
  currentPoseIndex :: int
  activeBackground :: string
  activeLighting :: string

text \<open>The state variables of the \<^verbatim>\<open>App\<close> component, and the object store.\<close>

record App = AppStateSnapshot +
  modelImageUrl :: "url option"
  isLoading :: bool
  loadingMessage :: string
  error :: "string option"
  isSheetCollapsed :: bool
  wardrobe :: "WardrobeItem list"
  isLookbookModalOpen :: bool
  lookbookUrl :: "url option"
  undoStack :: "AppStateSnapshot list"
  redoStack :: "AppStateSnapshot list"
  isLookbookTemplateModalOpen :: bool
  isCropModalOpen :: bool
  heap :: heap

definition POSE_INSTRUCTIONS :: "string list" where
  "POSE_INSTRUCTIONS =
     [''Full frontal view, hands on hips'',
      ''Slightly turned, 3/4 view'',
      ''Side profile view'',
      ''Jumping in the air, mid-action shot'',
      ''Walking towards camera'',
      ''Leaning against a wall'']"

definition defaultWardrobe :: "WardrobeItem list" where
  "defaultWardrobe = []"

subsection \<open>JavaScript primitives\<close>

text \<open>\<^verbatim>\<open>xs[i]\<close>: \<^verbatim>\<open>undefined\<close> (here \<open>None\<close>) outside the array.\<close>

definition at :: "'a list \<Rightarrow> int \<Rightarrow> 'a option" where
  "at xs i = (if 0 \<le> i \<and> i < int (length xs) then Some (xs ! nat i) else None)"

text \<open>\<^verbatim>\<open>xs.slice(0, e)\<close>: a negative end counts from the end of the array.\<close>

definition slice :: "'a list \<Rightarrow> int \<Rightarrow> 'a list" where
  "slice xs e = (if e < 0 then take (length xs - nat (- e)) xs else take (nat e) xs)"

text \<open>
  \<^verbatim>\<open>POSE_INSTRUCTIONS[i]\<close> used as a property key: outside the array it is \<^verbatim>\<open>undefined\<close>,
  which as a key is the string \<^verbatim>\<open>"undefined"\<close>.
\<close>

definition poseKey :: "int \<Rightarrow> string" where
  "poseKey i = (case at POSE_INSTRUCTIONS i of Some k \<Rightarrow> k | None \<Rightarrow> ''undefined'')"

text \<open>Truthiness of an optional string: \<^verbatim>\<open>undefined\<close>, \<^verbatim>\<open>null\<close> and \<^verbatim>\<open>""\<close> are falsy.\<close>

definition truthy :: "string option \<Rightarrow> bool" where
  "truthy v = (case v of None \<Rightarrow> False | Some u \<Rightarrow> u \<noteq> [])"

definition falsy :: "string option \<Rightarrow> bool" where
  "falsy v = (case v of None \<Rightarrow> True | Some u \<Rightarrow> u = [])"

text \<open>Reading an object of the store, \<^verbatim>\<open>obj[k]\<close>, \<^verbatim>\<open>Object.values(obj)[0]\<close>, \<^verbatim>\<open>obj[k] = v\<close>.\<close>

definition hget :: "heap \<Rightarrow> ref \<Rightarrow> pmap" where
  "hget h r = (if r < length h then h ! r else [])"

definition getProp :: "pmap \<Rightarrow> string \<Rightarrow> url option" where
  "getProp m k = map_of m k"

definition firstValue :: "pmap \<Rightarrow> url option" where
  "firstValue m = (case m of [] \<Rightarrow> None | kv # _ \<Rightarrow> Some (snd kv))"

fun setProp :: "pmap \<Rightarrow> string \<Rightarrow> url \<Rightarrow> pmap" where
  "setProp [] k v = [(k, v)]"
| "setProp (kv # m) k v = (if fst kv = k then (k, v) # m else kv # setProp m k v)"

text \<open>An object literal allocates a new object; an assignment changes the object in place.\<close>

definition alloc :: "heap \<Rightarrow> pmap \<Rightarrow> heap \<times> ref" where
  "alloc h m = (h @ [m], length h)"

definition hset :: "heap \<Rightarrow> ref \<Rightarrow> string \<Rightarrow> url \<Rightarrow> heap" where
  "hset h r k v = h[r := setProp (hget h r) k v]"

text \<open>\<^verbatim>\<open>layer.backgroundModifiedImages?.[k]\<close> on an optional field.\<close>

definition optProp :: "heap \<Rightarrow> ref option \<Rightarrow> string \<Rightarrow> url option" where
  "optProp h r k = (case r of None \<Rightarrow> None | Some a \<Rightarrow> getProp (hget h a) k)"

subsection \<open>Collaborators outside the component\<close>

text \<open>
  The remote generator (services/geminiService.ts) is an oracle from requests to a failure
  message or an image; each handler returns the requests it has sent.
\<close>

datatype request =
    GenerateVirtualTryOnImage url string WardrobeItem
  | GeneratePoseVariation url string
  | ChangeGarmentColor url string
  | ChangeBackground url string
  | ChangeLighting url string
  | GenerateLookbook "url list" string
  | MagicWandEdit url string

type_synonym remote = "request \<Rightarrow> string + url"

text \<open>
  The translation lookup \<^verbatim>\<open>t\<close> of the language provider (contexts/LanguageContext.tsx)
  walks the dotted key through the nested table of the language and gives the key back
  when the path does not end in a string. The table \<open>en\<close> lists the string entries of
  the English table of locales.ts under \<^verbatim>\<open>app\<close>, and the two entries under
  \<^verbatim>\<open>magicWand\<close> that the \<^verbatim>\<open>App\<close> component looks up, each under its dotted path. The
  provider starts with the language \<^verbatim>\<open>'EN'\<close>; the handlers are followed under that
  language (the other table has the same keys). The lookup is called \<open>tr\<close> here.
\<close>

definition en :: "(string \<times> string) list" where
  "en =
     [(''app.expandPanel'', ''Expand panel''),
      (''app.collapsePanel'', ''Collapse panel''),
      (''app.error.title'', ''Error''),
      (''app.error.applyGarment'', ''Failed to apply garment''),
      (''app.error.changePose'', ''Failed to change pose''),
      (''app.error.changeColor'', ''Failed to change color''),
      (''app.error.changeBackground'', ''Failed to change background''),
      (''app.error.changeLighting'', ''Failed to change lighting''),
      (''app.error.lookbook.addGarment'', ''Add at least one garment to create a lookbook.''),
      (''app.error.lookbook.notEnough'', ''Not enough outfits to generate a lookbook.''),
      (''app.error.lookbook.generate'', ''Failed to generate lookbook''),
      (''app.loading.adding'', ''Adding''),
      (''app.loading.posing'', ''Changing pose...''),
      (''app.loading.coloring'', ''Changing color to''),
      (''app.loading.background'', ''Changing background...''),
      (''app.loading.lighting'', ''Adjusting lighting...''),
      (''app.loading.lookbook'', ''Generating your lookbook...''),
      (''app.lookbook.title'', ''Your Lookbook''),
      (''app.lookbook.close'', ''Close lookbook''),
      (''app.lookbook.download'', ''Download Lookbook''),
      (''magicWand.label'', ''Edit Garment''),
      (''magicWand.error'', ''Failed to apply edit'')]"

definition tr :: "string \<Rightarrow> string" where
  "tr key = (case map_of en key of Some v \<Rightarrow> v | None \<Rightarrow> key)"

text \<open>
  Modelled from the spec: \<^verbatim>\<open>getFriendlyErrorMessage\<close> of lib/utils is not among the
  sources; a failure is "converted to a single user-facing message" from the failure and
  the operation's context string.
\<close>

definition getFriendlyErrorMessage :: "string \<Rightarrow> string \<Rightarrow> string" where
  "getFriendlyErrorMessage err context = context @ '': '' @ err"

text \<open>
  An exception that leaves a handler before its first setter call: the state stays as it
  was. Inside a \<^verbatim>\<open>try\<close> block the \<^verbatim>\<open>catch\<close> branch takes it instead.
\<close>

datatype js_error = TypeError

section \<open>Derived values\<close>

definition activeOutfitLayers :: "'a AppStateSnapshot_scheme \<Rightarrow> OutfitLayer list" where
  "activeOutfitLayers s = slice (outfitHistory s) (currentOutfitIndex s + 1)"


definition displayImageUrl :: "App \<Rightarrow> url option" where
  "displayImageUrl s =
     (if outfitHistory s = [] then modelImageUrl s
      else case at (outfitHistory s) (currentOutfitIndex s) of
        None \<Rightarrow> modelImageUrl s
      | Some currentLayer \<Rightarrow>
          let poseInstruction = poseKey (currentPoseIndex s) in
          if activeLighting s \<noteq> ''Default''
             \<and> truthy (optProp (heap s) (lightingModifiedImages currentLayer) poseInstruction)
          then optProp (heap s) (lightingModifiedImages currentLayer) poseInstruction
          else if activeBackground s \<noteq> ''Default''
             \<and> truthy (optProp (heap s) (backgroundModifiedImages currentLayer) poseInstruction)
          then optProp (heap s) (backgroundModifiedImages currentLayer) poseInstruction
          else (case getProp (hget (heap s) (poseImages currentLayer)) poseInstruction of
                  Some u \<Rightarrow> Some u
                | None \<Rightarrow> firstValue (hget (heap s) (poseImages currentLayer))))"

definition availablePoseKeys :: "App \<Rightarrow> string list" where
  "availablePoseKeys s =
     (if outfitHistory s = [] then []
      else case at (outfitHistory s) (currentOutfitIndex s) of
        None \<Rightarrow> []
      | Some currentLayer \<Rightarrow> map fst (hget (heap s) (poseImages currentLayer)))"

section \<open>Snapshot manager\<close>

definition getCurrentStateSnapshot :: "App \<Rightarrow> AppStateSnapshot" where
  "getCurrentStateSnapshot s =
     \<lparr> outfitHistory = outfitHistory s,
       currentOutfitIndex = currentOutfitIndex s,
       currentPoseIndex = currentPoseIndex s,
       activeBackground = activeBackground s,
       activeLighting = activeLighting s \<rparr>"

definition applyStateSnapshot :: "AppStateSnapshot \<Rightarrow> App \<Rightarrow> App" where
  "applyStateSnapshot snapshot s =
     s\<lparr> outfitHistory := outfitHistory snapshot,
        currentOutfitIndex := currentOutfitIndex snapshot,
        currentPoseIndex := currentPoseIndex snapshot,
        activeBackground := activeBackground snapshot,
        activeLighting := activeLighting snapshot \<rparr>"

text \<open>
  A reducer maps the previous snapshot to the next one and may allocate or assign objects
  of the store. \<open>None\<close>: the reducer throws, or builds an object that is no
  \<open>OutfitLayer\<close> (no \<^verbatim>\<open>poseImages\<close>); nothing has been set then.
\<close>

type_synonym updater = "AppStateSnapshot \<Rightarrow> heap \<Rightarrow> (AppStateSnapshot \<times> heap) option"

text \<open>
  \<open>closure\<close> is the state of the render in which the calling handler was created:
  \<^verbatim>\<open>getCurrentStateSnapshot\<close> reads that state, also after an \<^verbatim>\<open>await\<close>, while the setters
  act on the state \<open>s\<close> of the moment.
\<close>

definition updateStateWithHistory :: "App \<Rightarrow> updater \<Rightarrow> App \<Rightarrow> App option" where
  "updateStateWithHistory closure updater s =
     (let currentState = getCurrentStateSnapshot closure in
      case updater currentState (heap s) of
        None \<Rightarrow> None
      | Some (nextState, h') \<Rightarrow>
          Some (applyStateSnapshot nextState
                  (s\<lparr> undoStack := undoStack s @ [currentState], redoStack := [], heap := h' \<rparr>)))"

definition handleUndo :: "App \<Rightarrow> App" where
  "handleUndo s =
     (if undoStack s = [] then s
      else let currentState = getCurrentStateSnapshot s;
               lastState = last (undoStack s)
           in applyStateSnapshot lastState
                (s\<lparr> redoStack := redoStack s @ [currentState],
                    undoStack := butlast (undoStack s) \<rparr>))"

definition handleRedo :: "App \<Rightarrow> App" where
  "handleRedo s =
     (if redoStack s = [] then s
      else let currentState = getCurrentStateSnapshot s;
               nextState = last (redoStack s)
           in applyStateSnapshot nextState
                (s\<lparr> undoStack := undoStack s @ [currentState],
                    redoStack := butlast (redoStack s) \<rparr>))"

section \<open>Handlers\<close>

definition initialApp :: App where
  "initialApp =
     \<lparr> outfitHistory = [], currentOutfitIndex = 0, currentPoseIndex = 0,
       activeBackground = ''Default'', activeLighting = ''Default'',
       modelImageUrl = None, isLoading = False, loadingMessage = [], error = None,
       isSheetCollapsed = True, wardrobe = defaultWardrobe, isLookbookModalOpen = False,
       lookbookUrl = None, undoStack = [], redoStack = [],
       isLookbookTemplateModalOpen = False, isCropModalOpen = False, heap = [] \<rparr>"

text \<open>A layer literal with its three object literals.\<close>

definition newLayer :: "WardrobeItem option \<Rightarrow> string \<Rightarrow> url \<Rightarrow> heap \<Rightarrow> OutfitLayer \<times> heap" where
  "newLayer g k img h =
     (let (h1, p) = alloc h [(k, img)];
          (h2, b) = alloc h1 [];
          (h3, l) = alloc h2 []
      in (\<lparr> garment = g, poseImages = p, backgroundModifiedImages = Some b,
             lightingModifiedImages = Some l \<rparr>, h3))"

definition handleModelFinalized :: "url \<Rightarrow> App \<Rightarrow> App" where
  "handleModelFinalized u s =
     (let (layer, h') = newLayer None (poseKey 0) u (heap s) in
      s\<lparr> modelImageUrl := Some u, outfitHistory := [layer], currentOutfitIndex := 0,
         undoStack := [], redoStack := [], heap := h' \<rparr>)"

definition handleStartOver :: "App \<Rightarrow> App" where
  "handleStartOver s =
     s\<lparr> modelImageUrl := None, outfitHistory := [], currentOutfitIndex := 0,
        isLoading := False, loadingMessage := [], error := None, currentPoseIndex := 0,
        isSheetCollapsed := True, wardrobe := defaultWardrobe, isLookbookModalOpen := False,
        lookbookUrl := None, activeBackground := ''Default'', activeLighting := ''Default'',
        undoStack := [], redoStack := [], isLookbookTemplateModalOpen := False \<rparr>"

text \<open>The \<^verbatim>\<open>finally\<close> block of every asynchronous handler.\<close>

definition finallyBlock :: "App \<Rightarrow> App" where
  "finallyBlock s = s\<lparr> isLoading := False, loadingMessage := [] \<rparr>"

subsection \<open>Apply garment\<close>

definition garmentReselect_updater :: updater where
  "garmentReselect_updater prevState h =
     Some (prevState\<lparr> currentOutfitIndex := currentOutfitIndex prevState + 1,
                      currentPoseIndex := 0,
                      activeBackground := ''Default'',
                      activeLighting := ''Default'' \<rparr>, h)"

definition garmentSelect_updater :: "WardrobeItem \<Rightarrow> url \<Rightarrow> updater" where
  "garmentSelect_updater garmentInfo newImageUrl prevState h =
     (let (layer, h') = newLayer (Some garmentInfo) (poseKey 0) newImageUrl h;
          newHistory = slice (outfitHistory prevState) (currentOutfitIndex prevState + 1)
      in Some (\<lparr> outfitHistory = newHistory @ [layer],
                 currentOutfitIndex = int (length newHistory),
                 currentPoseIndex = 0,
                 activeBackground = ''Default'',
                 activeLighting = ''Default'' \<rparr>, h'))"

definition mergeWardrobe :: "WardrobeItem \<Rightarrow> WardrobeItem list \<Rightarrow> WardrobeItem list" where
  "mergeWardrobe garmentInfo prev =
     (case List.find (\<lambda>item. id' item = id' garmentInfo) prev of
        Some _ \<Rightarrow> prev
      | None \<Rightarrow> prev @ [garmentInfo])"

definition isNextLayer :: "App \<Rightarrow> WardrobeItem \<Rightarrow> bool" where
  "isNextLayer s garmentInfo =
     (case at (outfitHistory s) (currentOutfitIndex s + 1) of
        None \<Rightarrow> False
      | Some nextLayer \<Rightarrow>
          (case garment nextLayer of None \<Rightarrow> False | Some g \<Rightarrow> id' g = id' garmentInfo))"

text \<open>The state after the setter calls that precede the \<^verbatim>\<open>await\<close>.\<close>

definition garmentSelect_pending :: "WardrobeItem \<Rightarrow> App \<Rightarrow> App" where
  "garmentSelect_pending garmentInfo s =
     s\<lparr> error := None, isLoading := True,
        loadingMessage := tr ''app.loading.adding'' @ '' '' @ name garmentInfo @ ''...'' \<rparr>"

text \<open>
  The callback is a \<^verbatim>\<open>useCallback\<close> closure: \<^verbatim>\<open>displayImageUrl\<close>, \<^verbatim>\<open>isLoading\<close>,
  \<^verbatim>\<open>outfitHistory\<close>, \<^verbatim>\<open>currentOutfitIndex\<close> and \<^verbatim>\<open>getCurrentStateSnapshot\<close> are those of
  the render that created it, \<open>closure\<close>; the setters act on the state \<open>s\<close> in which it is
  called. \<open>handleGarmentSelect_of closure\<close> is the callback of the render \<open>closure\<close>.
\<close>

definition handleGarmentSelect_of ::
  "App \<Rightarrow> remote \<Rightarrow> string \<Rightarrow> WardrobeItem \<Rightarrow> App \<Rightarrow> App \<times> request list" where
  "handleGarmentSelect_of closure remote garmentFile garmentInfo s =
     (if falsy (displayImageUrl closure) \<or> isLoading closure then (s, [])
      else if isNextLayer closure garmentInfo then
        (case updateStateWithHistory closure garmentReselect_updater s of
           None \<Rightarrow> (s, [])
         | Some s' \<Rightarrow> (s', []))
      else
        let s1 = garmentSelect_pending garmentInfo s;
            req = GenerateVirtualTryOnImage
                    (case displayImageUrl closure of Some d \<Rightarrow> d | None \<Rightarrow> [])
                    garmentFile garmentInfo
        in case remote req of
             Inr newImageUrl \<Rightarrow>
               (case updateStateWithHistory closure
                       (garmentSelect_updater garmentInfo newImageUrl) s1 of
                  None \<Rightarrow>
                    (finallyBlock (s1\<lparr> error := Some (getFriendlyErrorMessage ''TypeError''
                                                    (tr ''app.error.applyGarment'')) \<rparr>), [req])
                | Some s2 \<Rightarrow>
                    (finallyBlock (s2\<lparr> wardrobe := mergeWardrobe garmentInfo (wardrobe s2) \<rparr>), [req]))
           | Inl err \<Rightarrow>
               (finallyBlock (s1\<lparr> error := Some (getFriendlyErrorMessage err
                                               (tr ''app.error.applyGarment'')) \<rparr>), [req]))"

text \<open>The callback called in the state of the render that created it.\<close>

definition handleGarmentSelect ::
  "remote \<Rightarrow> string \<Rightarrow> WardrobeItem \<Rightarrow> App \<Rightarrow> App \<times> request list" where
  "handleGarmentSelect remote garmentFile garmentInfo s =
     handleGarmentSelect_of s remote garmentFile garmentInfo s"


subsection \<open>Revert to layer\<close>

text \<open>
  Indices are JavaScript numbers. They are taken as integers here, which is what the
  source computes for every index of a magnitude below \<open>2^53\<close>, the indices of arrays
  among them.
\<close>

definition revert_updater :: "int \<Rightarrow> updater" where
  "revert_updater index prevState h =
     (let newHistory = slice (outfitHistory prevState) index in
      Some (prevState\<lparr> outfitHistory := newHistory,
                       currentOutfitIndex := index - 1,
                       currentPoseIndex := 0,
                       activeBackground := ''Default'',
                       activeLighting := ''Default'' \<rparr>, h))"

definition handleRevertToLayer :: "int \<Rightarrow> App \<Rightarrow> App" where
  "handleRevertToLayer index s =
     (case updateStateWithHistory s (revert_updater index) s of
        None \<Rightarrow> s
      | Some s' \<Rightarrow> s')"

subsection \<open>Select pose\<close>

definition poseCached_updater :: "int \<Rightarrow> updater" where
  "poseCached_updater newIndex prevState h =
     Some (prevState\<lparr> currentPoseIndex := newIndex,
                      activeBackground := ''Default'',
                      activeLighting := ''Default'' \<rparr>, h)"

text \<open>
  \<^verbatim>\<open>updatedLayer\<close> is a copy of the layer, but its \<^verbatim>\<open>poseImages\<close> is the object of the
  layer it was copied from: the assignment changes that object. On a missing layer the
  assignment throws.
\<close>

definition poseSelect_updater :: "string \<Rightarrow> url \<Rightarrow> int \<Rightarrow> updater" where
  "poseSelect_updater poseInstruction newImageUrl newIndex prevState h =
     (let newHistory = outfitHistory prevState in
      case at newHistory (currentOutfitIndex prevState) of
        None \<Rightarrow> None
      | Some updatedLayer \<Rightarrow>
          let h' = hset h (poseImages updatedLayer) poseInstruction newImageUrl;
              newHistory' = newHistory[nat (currentOutfitIndex prevState) := updatedLayer]
          in Some (prevState\<lparr> outfitHistory := newHistory',
                              currentPoseIndex := newIndex,
                              activeBackground := ''Default'',
                              activeLighting := ''Default'' \<rparr>, h'))"

text \<open>The state between the optimistic setter calls and the answer of the generator.\<close>

definition poseSelect_pending :: "int \<Rightarrow> App \<Rightarrow> App" where
  "poseSelect_pending newIndex s =
     s\<lparr> error := None, isLoading := True, loadingMessage := tr ''app.loading.posing'',
        currentPoseIndex := newIndex \<rparr>"

definition handlePoseSelect :: "remote \<Rightarrow> int \<Rightarrow> App \<Rightarrow> js_error + App \<times> request list" where
  "handlePoseSelect remote newIndex s =
     (if isLoading s \<or> outfitHistory s = [] \<or> newIndex = currentPoseIndex s then Inr (s, [])
      else
        let poseInstruction = poseKey newIndex in
        case at (outfitHistory s) (currentOutfitIndex s) of
          None \<Rightarrow> Inl TypeError
        | Some currentLayer \<Rightarrow>
            if truthy (getProp (hget (heap s) (poseImages currentLayer)) poseInstruction) then
              (case updateStateWithHistory s (poseCached_updater newIndex) s of
                 None \<Rightarrow> Inr (s, [])
               | Some s' \<Rightarrow> Inr (s', []))
            else
              let baseImageForPoseChange = firstValue (hget (heap s) (poseImages currentLayer)) in
              if falsy baseImageForPoseChange then Inr (s, [])
              else
                let prevPoseIndex = currentPoseIndex s;
                    s1 = poseSelect_pending newIndex s;
                    req = GeneratePoseVariation
                            (case baseImageForPoseChange of Some b \<Rightarrow> b | None \<Rightarrow> [])
                            poseInstruction
                in (case remote req of
                     Inr newImageUrl \<Rightarrow>
                       (case updateStateWithHistory s
                               (poseSelect_updater poseInstruction newImageUrl newIndex) s1 of
                          None \<Rightarrow>
                            Inr (finallyBlock
                                   (s1\<lparr> error := Some (getFriendlyErrorMessage ''TypeError''
                                                          (tr ''app.error.changePose'')),
                                       currentPoseIndex := prevPoseIndex \<rparr>), [req])
                        | Some s2 \<Rightarrow> Inr (finallyBlock s2, [req]))
                   | Inl err \<Rightarrow>
                       Inr (finallyBlock
                              (s1\<lparr> error := Some (getFriendlyErrorMessage err
                                                     (tr ''app.error.changePose'')),
                                  currentPoseIndex := prevPoseIndex \<rparr>), [req])))"

subsection \<open>Change garment colour, magic-wand edit\<close>

text \<open>
  \<^verbatim>\<open>layerToEdit?.poseImages?.[POSE_INSTRUCTIONS[0]] ?? Object.values(layerToEdit.poseImages)[0]\<close>:
  on a missing layer the left operand is \<^verbatim>\<open>undefined\<close> and the right one throws.
\<close>

definition baseImageAt :: "App \<Rightarrow> int \<Rightarrow> js_error + url option" where
  "baseImageAt s index =
     (case at (outfitHistory s) index of
        None \<Rightarrow> Inl TypeError
      | Some layerToEdit \<Rightarrow>
          (case getProp (hget (heap s) (poseImages layerToEdit)) (poseKey 0) of
             Some u \<Rightarrow> Inr (Some u)
           | None \<Rightarrow> Inr (firstValue (hget (heap s) (poseImages layerToEdit)))))"

text \<open>
  \<^verbatim>\<open>{ ...prevState.outfitHistory[index], poseImages: {...}, ... }\<close>: the spread of a missing
  layer contributes nothing, which leaves \<^verbatim>\<open>garment\<close> undefined; every reader of the field
  (\<^verbatim>\<open>layer.garment?.id\<close>) treats that as \<^verbatim>\<open>null\<close>.
\<close>

definition replaceBase_updater :: "int \<Rightarrow> url \<Rightarrow> updater" where
  "replaceBase_updater index newImageUrl prevState h =
     (let historyBeforeEdit = slice (outfitHistory prevState) index;
          g = (case at (outfitHistory prevState) index of None \<Rightarrow> None | Some l \<Rightarrow> garment l);
          (editedLayer, h') = newLayer g (poseKey 0) newImageUrl h
      in Some (prevState\<lparr> outfitHistory := historyBeforeEdit @ [editedLayer],
                          currentOutfitIndex := index,
                          currentPoseIndex := 0,
                          activeBackground := ''Default'',
                          activeLighting := ''Default'' \<rparr>, h'))"

definition handleColorChangeAtIndex ::
  "remote \<Rightarrow> int \<Rightarrow> string \<Rightarrow> App \<Rightarrow> js_error + App \<times> request list" where
  "handleColorChangeAtIndex remote index newColor s =
     (case baseImageAt s index of
        Inl e \<Rightarrow> Inl e
      | Inr baseImage \<Rightarrow>
          if falsy baseImage \<or> isLoading s then Inr (s, [])
          else
            let s1 = s\<lparr> error := None, isLoading := True,
                        loadingMessage := tr ''app.loading.coloring'' @ '' '' @ newColor @ ''...'' \<rparr>;
                req = ChangeGarmentColor (case baseImage of Some b \<Rightarrow> b | None \<Rightarrow> []) newColor
            in (case remote req of
                 Inr newImageUrl \<Rightarrow>
                   (case updateStateWithHistory s (replaceBase_updater index newImageUrl) s1 of
                      None \<Rightarrow>
                        Inr (finallyBlock
                               (s1\<lparr> error := Some (getFriendlyErrorMessage ''TypeError''
                                                      (tr ''app.error.changeColor'')) \<rparr>), [req])
                    | Some s2 \<Rightarrow> Inr (finallyBlock s2, [req]))
               | Inl err \<Rightarrow>
                   Inr (finallyBlock
                          (s1\<lparr> error := Some (getFriendlyErrorMessage err
                                                 (tr ''app.error.changeColor'')) \<rparr>), [req])))"

definition handleMagicWandEditAtIndex ::
  "remote \<Rightarrow> int \<Rightarrow> string \<Rightarrow> App \<Rightarrow> js_error + App \<times> request list" where
  "handleMagicWandEditAtIndex remote index instruction s =
     (case baseImageAt s index of
        Inl e \<Rightarrow> Inl e
      | Inr baseImage \<Rightarrow>
          if falsy baseImage \<or> isLoading s then Inr (s, [])
          else
            let s1 = s\<lparr> error := None, isLoading := True,
                        loadingMessage := tr ''magicWand.label'' \<rparr>;
                req = MagicWandEdit (case baseImage of Some b \<Rightarrow> b | None \<Rightarrow> []) instruction
            in (case remote req of
                 Inr newImageUrl \<Rightarrow>
                   (case updateStateWithHistory s (replaceBase_updater index newImageUrl) s1 of
                      None \<Rightarrow>
                        Inr (finallyBlock
                               (s1\<lparr> error := Some (getFriendlyErrorMessage ''TypeError''
                                                      (tr ''magicWand.error'')) \<rparr>), [req])
                    | Some s2 \<Rightarrow> Inr (finallyBlock s2, [req]))
               | Inl err \<Rightarrow>
                   Inr (finallyBlock
                          (s1\<lparr> error := Some (getFriendlyErrorMessage err
                                                 (tr ''magicWand.error'')) \<rparr>), [req])))"

subsection \<open>Change background, change lighting\<close>

text \<open>\<^verbatim>\<open>currentLayer?.poseImages?.[currentPoseKey]\<close>: the exact pose, no fallback.\<close>

definition baseImageForModification :: "App \<Rightarrow> url option" where
  "baseImageForModification s =
     (case at (outfitHistory s) (currentOutfitIndex s) of
        None \<Rightarrow> None
      | Some currentLayer \<Rightarrow>
          getProp (hget (heap s) (poseImages currentLayer)) (poseKey (currentPoseIndex s)))"

definition backgroundDefault_updater :: updater where
  "backgroundDefault_updater prevState h = Some (prevState\<lparr> activeBackground := ''Default'' \<rparr>, h)"

text \<open>
  \<^verbatim>\<open>layerToUpdate\<close> is a copy of the layer; when the layer has a
  \<^verbatim>\<open>backgroundModifiedImages\<close> object, the copy refers to the same object and the assignment
  changes it. The spread of a missing layer gives an object without \<^verbatim>\<open>poseImages\<close>.
\<close>

definition background_updater :: "string \<Rightarrow> url \<Rightarrow> string \<Rightarrow> updater" where
  "background_updater currentPoseKey newImageUrl backgroundPrompt prevState h =
     (let newHistory = outfitHistory prevState in
      case at newHistory (currentOutfitIndex prevState) of
        None \<Rightarrow> None
      | Some layer \<Rightarrow>
          let (layerToUpdate, h1) =
                (case backgroundModifiedImages layer of
                   Some r \<Rightarrow> (layer, h)
                 | None \<Rightarrow> (let (h0, r) = alloc h []
                            in (layer\<lparr> backgroundModifiedImages := Some r \<rparr>, h0)));
              h' = (case backgroundModifiedImages layerToUpdate of
                      Some r \<Rightarrow> hset h1 r currentPoseKey newImageUrl
                    | None \<Rightarrow> h1);
              newHistory' = newHistory[nat (currentOutfitIndex prevState) := layerToUpdate]
          in Some (prevState\<lparr> outfitHistory := newHistory',
                              activeBackground := backgroundPrompt,
                              activeLighting := ''Default'' \<rparr>, h'))"

text \<open>The instruction sent for a background option: the studio option is spelled out.\<close>

definition promptForAPI :: "string \<Rightarrow> string" where
  "promptForAPI backgroundPrompt =
     (if backgroundPrompt = ''Studio Background''
      then ''a clean, neutral studio backdrop (light gray, #f0f0f0)''
      else backgroundPrompt)"

definition handleBackgroundChange :: "remote \<Rightarrow> string \<Rightarrow> App \<Rightarrow> App \<times> request list" where
  "handleBackgroundChange remote backgroundPrompt s =
     (if isLoading s then (s, [])
      else if backgroundPrompt = ''Default'' then
        (case updateStateWithHistory s backgroundDefault_updater s of
           None \<Rightarrow> (s, [])
         | Some s' \<Rightarrow> (s', []))
      else
        let currentPoseKey = poseKey (currentPoseIndex s);
            base = baseImageForModification s
        in if falsy base then
             (s\<lparr> error := Some (getFriendlyErrorMessage ''Base image for pose not found.''
                                  (tr ''app.error.changeBackground'')) \<rparr>, [])
           else
             let s1 = s\<lparr> error := None, isLoading := True,
                         loadingMessage := tr ''app.loading.background'' \<rparr>;
                 req = ChangeBackground (case base of Some b \<Rightarrow> b | None \<Rightarrow> [])
                         (promptForAPI backgroundPrompt)
             in (case remote req of
                   Inr newImageUrl \<Rightarrow>
                     (case updateStateWithHistory s
                             (background_updater currentPoseKey newImageUrl backgroundPrompt) s1 of
                        None \<Rightarrow>
                          (finallyBlock
                             (s1\<lparr> error := Some (getFriendlyErrorMessage ''TypeError''
                                                    (tr ''app.error.changeBackground'')) \<rparr>), [req])
                      | Some s2 \<Rightarrow> (finallyBlock s2, [req]))
                 | Inl err \<Rightarrow>
                     (finallyBlock
                        (s1\<lparr> error := Some (getFriendlyErrorMessage err
                                               (tr ''app.error.changeBackground'')) \<rparr>), [req])))"

definition lightingDefault_updater :: updater where
  "lightingDefault_updater prevState h = Some (prevState\<lparr> activeLighting := ''Default'' \<rparr>, h)"

definition lighting_updater :: "string \<Rightarrow> url \<Rightarrow> string \<Rightarrow> updater" where
  "lighting_updater currentPoseKey newImageUrl lightingPrompt prevState h =
     (let newHistory = outfitHistory prevState in
      case at newHistory (currentOutfitIndex prevState) of
        None \<Rightarrow> None
      | Some layer \<Rightarrow>
          let (layerToUpdate, h1) =
                (case lightingModifiedImages layer of
                   Some r \<Rightarrow> (layer, h)
                 | None \<Rightarrow> (let (h0, r) = alloc h []
                            in (layer\<lparr> lightingModifiedImages := Some r \<rparr>, h0)));
              h' = (case lightingModifiedImages layerToUpdate of
                      Some r \<Rightarrow> hset h1 r currentPoseKey newImageUrl
                    | None \<Rightarrow> h1);
              newHistory' = newHistory[nat (currentOutfitIndex prevState) := layerToUpdate]
          in Some (prevState\<lparr> outfitHistory := newHistory',
                              activeLighting := lightingPrompt,
                              activeBackground := ''Default'' \<rparr>, h'))"

definition handleLightingChange :: "remote \<Rightarrow> string \<Rightarrow> App \<Rightarrow> App \<times> request list" where
  "handleLightingChange remote lightingPrompt s =
     (if isLoading s then (s, [])
      else if lightingPrompt = ''Default'' then
        (case updateStateWithHistory s lightingDefault_updater s of
           None \<Rightarrow> (s, [])
         | Some s' \<Rightarrow> (s', []))
      else
        let currentPoseKey = poseKey (currentPoseIndex s);
            base = baseImageForModification s
        in if falsy base then
             (s\<lparr> error := Some (getFriendlyErrorMessage ''Base image for pose not found.''
                                  (tr ''app.error.changeLighting'')) \<rparr>, [])
           else
             let s1 = s\<lparr> error := None, isLoading := True,
                         loadingMessage := tr ''app.loading.lighting'' \<rparr>;
                 req = ChangeLighting (case base of Some b \<Rightarrow> b | None \<Rightarrow> []) lightingPrompt
             in (case remote req of
                   Inr newImageUrl \<Rightarrow>
                     (case updateStateWithHistory s
                             (lighting_updater currentPoseKey newImageUrl lightingPrompt) s1 of
                        None \<Rightarrow>
                          (finallyBlock
                             (s1\<lparr> error := Some (getFriendlyErrorMessage ''TypeError''
                                                    (tr ''app.error.changeLighting'')) \<rparr>), [req])
                      | Some s2 \<Rightarrow> (finallyBlock s2, [req]))
                 | Inl err \<Rightarrow>
                     (finallyBlock
                        (s1\<lparr> error := Some (getFriendlyErrorMessage err
                                               (tr ''app.error.changeLighting'')) \<rparr>), [req])))"

subsection \<open>Lookbook\<close>

definition lookbookImageUrls :: "App \<Rightarrow> url list" where
  "lookbookImageUrls s =
     concat (map (\<lambda>layer. case firstValue (hget (heap s) (poseImages layer)) of
                             None \<Rightarrow> []
                           | Some u \<Rightarrow> (if u = [] then [] else [u]))
                 (activeOutfitLayers s))"

definition handleGenerateLookbook :: "remote \<Rightarrow> string \<Rightarrow> App \<Rightarrow> App \<times> request list" where
  "handleGenerateLookbook remote templatePrompt s =
     (let s0 = s\<lparr> isLookbookTemplateModalOpen := False \<rparr> in
      if isLoading s \<or> length (activeOutfitLayers s) \<le> 1 then
        (s0\<lparr> error := Some (tr ''app.error.lookbook.addGarment'') \<rparr>, [])
      else
        let s1 = s0\<lparr> error := None, isLoading := True,
                     loadingMessage := tr ''app.loading.lookbook'' \<rparr>;
            imageUrls = lookbookImageUrls s
        in if 1 < length imageUrls then
             (let req = GenerateLookbook imageUrls templatePrompt in
              case remote req of
                Inr resultUrl \<Rightarrow>
                  (finallyBlock (s1\<lparr> lookbookUrl := Some resultUrl,
                                      isLookbookModalOpen := True \<rparr>), [req])
              | Inl err \<Rightarrow>
                  (finallyBlock
                     (s1\<lparr> error := Some (getFriendlyErrorMessage err
                                            (tr ''app.error.lookbook.generate'')) \<rparr>), [req]))
           else (finallyBlock (s1\<lparr> error := Some (tr ''app.error.lookbook.notEnough'') \<rparr>), []))"

subsection \<open>Crop\<close>

definition handleOpenCropModal :: "App \<Rightarrow> App" where
  "handleOpenCropModal s = (if truthy (displayImageUrl s) then s\<lparr> isCropModalOpen := True \<rparr> else s)"

definition crop_updater :: "url \<Rightarrow> updater" where
  "crop_updater croppedImageUrl prevState h =
     (let indexToEdit = currentOutfitIndex prevState;
          historyBeforeEdit = slice (outfitHistory prevState) indexToEdit;
          originalLayer = at (outfitHistory prevState) indexToEdit;
          g = (case originalLayer of None \<Rightarrow> None | Some l \<Rightarrow> garment l);
          (croppedLayer, h') =
             newLayer g (poseKey (currentPoseIndex prevState)) croppedImageUrl h
      in Some (prevState\<lparr> outfitHistory := historyBeforeEdit @ [croppedLayer],
                          currentOutfitIndex := indexToEdit,
                          currentPoseIndex := currentPoseIndex prevState,
                          activeBackground := ''Default'',
                          activeLighting := ''Default'' \<rparr>, h'))"

definition handleImageCrop :: "url \<Rightarrow> App \<Rightarrow> App" where
  "handleImageCrop croppedImageUrl s =
     (let s0 = s\<lparr> isCropModalOpen := False \<rparr> in
      if croppedImageUrl = [] then s0
      else (case updateStateWithHistory s (crop_updater croppedImageUrl) s0 of
              None \<Rightarrow> s0
            | Some s' \<Rightarrow> s'))"

section \<open>Example states\<close>

definition shirt :: WardrobeItem where
  "shirt = \<lparr> id' = ''shirt-1'', name = ''Shirt'', url = ''shirt.png'', category = Top \<rparr>"

definition hat :: WardrobeItem where
  "hat = \<lparr> id' = ''hat-1'', name = ''Hat'', url = ''hat.png'', category = Accessory \<rparr>"

definition answers :: "url \<Rightarrow> remote" where
  "answers u = (\<lambda>req. Inr u)"


definition baseLayer :: OutfitLayer where
  "baseLayer = \<lparr> garment = None, poseImages = 0, backgroundModifiedImages = Some 1,
                 lightingModifiedImages = Some 2 \<rparr>"

definition shirtLayer :: OutfitLayer where
  "shirtLayer = \<lparr> garment = Some shirt, poseImages = 3, backgroundModifiedImages = Some 4,
                  lightingModifiedImages = Some 5 \<rparr>"

definition hatLayer :: OutfitLayer where
  "hatLayer = \<lparr> garment = Some hat, poseImages = 6, backgroundModifiedImages = Some 7,
                lightingModifiedImages = Some 8 \<rparr>"

text \<open>The model image \<open>A\<close> has been finalized.\<close>

definition modelState :: App where
  "modelState = handleModelFinalized ''A'' initialApp"

text \<open>The shirt has been applied (image \<open>B\<close>), then the hat (image \<open>C\<close>).\<close>

definition shirtState :: App where
  "shirtState = fst (handleGarmentSelect (answers ''B'') ''shirt-file'' shirt modelState)"

definition hatState :: App where
  "hatState = fst (handleGarmentSelect (answers ''C'') ''hat-file'' hat shirtState)"




text \<open>The shirt of \<open>hatState\<close> is recoloured: the generator answers with image \<open>D\<close>.\<close>

definition recolouredState :: App where
  "recolouredState =
     (case handleColorChangeAtIndex (answers ''D'') 1 ''#EF4444'' hatState of
        Inr (s, calls) \<Rightarrow> s
      | Inl e \<Rightarrow> hatState)"

text \<open>The shirt of \<open>hatState\<close> is edited with the magic wand: image \<open>E\<close>.\<close>

definition editedState :: App where
  "editedState =
     (case handleMagicWandEditAtIndex (answers ''E'') 1 ''make it sleeveless'' hatState of
        Inr (s, calls) \<Rightarrow> s
      | Inl e \<Rightarrow> hatState)"

section \<open>The displayed image in the spec's words\<close>



section \<open>Sequences of apply-garment and revert operations\<close>

text \<open>
  An apply-garment action carries the garment and the answer of the generator, should the
  handler ask it; a revert action carries the index of the layer to remove.
\<close>

datatype action = ApplyGarment string WardrobeItem "string + url" | RevertToLayer int

definition perform :: "action \<Rightarrow> App \<Rightarrow> App" where
  "perform a s =
     (case a of
        ApplyGarment garmentFile garmentInfo answer \<Rightarrow>
          fst (handleGarmentSelect (\<lambda>req. answer) garmentFile garmentInfo s)
      | RevertToLayer index \<Rightarrow> handleRevertToLayer index s)"

fun performAll :: "action list \<Rightarrow> App \<Rightarrow> App" where
  "performAll [] s = s"
| "performAll (a # as) s = performAll as (perform a s)"

text \<open>
  The \<^verbatim>\<open>OutfitStack\<close> component is given \<^verbatim>\<open>activeOutfitLayers\<close> as its history and renders
  the remove button of the layer at \<^verbatim>\<open>index\<close>, which calls \<^verbatim>\<open>onRevertToLayer(index)\<close>,
  when \<^verbatim>\<open>canEdit = index > 0\<close>.
\<close>

definition revertButtons :: "OutfitLayer list \<Rightarrow> int list" where
  "revertButtons layers = map int (filter (\<lambda>index. 0 < index) [0 ..< length layers])"

definition offered :: "App \<Rightarrow> action \<Rightarrow> bool" where
  "offered s a =
     (case a of
        ApplyGarment garmentFile garmentInfo answer \<Rightarrow> True
      | RevertToLayer index \<Rightarrow> index \<in> set (revertButtons (activeOutfitLayers s)))"

fun offeredAll :: "action list \<Rightarrow> App \<Rightarrow> bool" where
  "offeredAll [] s = True"
| "offeredAll (a # as) s = (offered s a \<and> offeredAll as (perform a s))"

text \<open>The cursor points into a history that starts with the layer \<open>base\<close>.\<close>

definition stacked :: "OutfitLayer \<Rightarrow> App \<Rightarrow> bool" where
  "stacked base s \<longleftrightarrow>
     outfitHistory s \<noteq> [] \<and> hd (outfitHistory s) = base
     \<and> 0 \<le> currentOutfitIndex s \<and> currentOutfitIndex s < int (length (outfitHistory s))"

section \<open>Reachable states\<close>

text \<open>
  The states the component can be in. A handler run is taken from its call to the
  settlement of its request (the rules named after the handlers). The rules \<open>started\<close>,
  \<open>startedPose\<close>, \<open>settled\<close>, \<open>merged\<close>, \<open>lookbookShown\<close>, \<open>failed\<close> and \<open>failedPose\<close> add
  the states in between: the state after the setter calls that precede the \<^verbatim>\<open>await\<close>, and, since the
  handlers without a busy test may run while a request is in flight, the settlement of a
  request in a later state \<open>s\<close> with the snapshot of the state \<open>c\<close> that started it. The rule
  \<open>garmentSelectOf\<close> is the apply-garment callback of an earlier render \<open>c\<close> called in the
  state \<open>s\<close>, as the wardrobe panel does after converting the image. The last four rules
  are the setter calls written in the markup: the toggle of the sheet, the opening and
  closing of the template dialog, the closing of the lookbook viewer and of the crop
  dialog.
\<close>

inductive reachable :: "App \<Rightarrow> bool" where
  initial: "reachable initialApp"
| modelFinalized: "reachable s \<Longrightarrow> reachable (handleModelFinalized u s)"
| startOver: "reachable s \<Longrightarrow> reachable (handleStartOver s)"
| undo: "reachable s \<Longrightarrow> reachable (handleUndo s)"
| redo: "reachable s \<Longrightarrow> reachable (handleRedo s)"
| garmentSelect: "reachable s \<Longrightarrow> reachable (fst (handleGarmentSelect remote f g s))"
| revertToLayer: "reachable s \<Longrightarrow> reachable (handleRevertToLayer index s)"
| poseSelect: "reachable s \<Longrightarrow> handlePoseSelect remote i s = Inr (s', calls) \<Longrightarrow> reachable s'"
| colorChange:
    "reachable s \<Longrightarrow> handleColorChangeAtIndex remote i arg s = Inr (s', calls) \<Longrightarrow> reachable s'"
| backgroundChange: "reachable s \<Longrightarrow> reachable (fst (handleBackgroundChange remote arg s))"
| lightingChange: "reachable s \<Longrightarrow> reachable (fst (handleLightingChange remote arg s))"
| magicWand:
    "reachable s \<Longrightarrow> handleMagicWandEditAtIndex remote i arg s = Inr (s', calls) \<Longrightarrow> reachable s'"
| lookbook: "reachable s \<Longrightarrow> reachable (fst (handleGenerateLookbook remote arg s))"
| openCrop: "reachable s \<Longrightarrow> reachable (handleOpenCropModal s)"
| imageCrop: "reachable s \<Longrightarrow> reachable (handleImageCrop u s)"
| started: "reachable s \<Longrightarrow> reachable (s\<lparr> error := None, isLoading := True, loadingMessage := m \<rparr>)"
| startedPose: "reachable s \<Longrightarrow> reachable (poseSelect_pending i s)"
| settled:
    "reachable c \<Longrightarrow> reachable s \<Longrightarrow>
     updater = garmentSelect_updater g img \<or> updater = poseSelect_updater k img i
       \<or> updater = replaceBase_updater i img \<or> updater = background_updater k img arg
       \<or> updater = lighting_updater k img arg \<Longrightarrow>
     updateStateWithHistory c updater s = Some s' \<Longrightarrow> reachable (finallyBlock s')"
| merged: "reachable s \<Longrightarrow> reachable (s\<lparr> wardrobe := mergeWardrobe g (wardrobe s) \<rparr>)"
| lookbookShown: "reachable s \<Longrightarrow>
          reachable (finallyBlock (s\<lparr> lookbookUrl := Some u, isLookbookModalOpen := True \<rparr>))"
| failed: "reachable s \<Longrightarrow> reachable (finallyBlock (s\<lparr> error := Some m \<rparr>))"
| failedPose: "reachable c \<Longrightarrow> reachable s \<Longrightarrow>
             reachable (finallyBlock (s\<lparr> error := Some m, currentPoseIndex := currentPoseIndex c \<rparr>))"
| garmentSelectOf: "reachable c \<Longrightarrow> reachable s \<Longrightarrow>
             reachable (fst (handleGarmentSelect_of c remote f g s))"
| sheetToggled: "reachable s \<Longrightarrow> reachable (s\<lparr> isSheetCollapsed := \<not> isSheetCollapsed s \<rparr>)"
| templatesShown: "reachable s \<Longrightarrow> reachable (s\<lparr> isLookbookTemplateModalOpen := b \<rparr>)"
| lookbookClosed: "reachable s \<Longrightarrow> reachable (s\<lparr> isLookbookModalOpen := False \<rparr>)"
| cropClosed: "reachable s \<Longrightarrow> reachable (s\<lparr> isCropModalOpen := False \<rparr>)"

text \<open>At most one of the two modifiers of a snapshot is set.\<close>

definition exclusive :: "'a AppStateSnapshot_scheme \<Rightarrow> bool" where
  "exclusive snap \<longleftrightarrow> activeBackground snap = ''Default'' \<or> activeLighting snap = ''Default''"

definition allExclusive :: "App \<Rightarrow> bool" where
  "allExclusive s \<longleftrightarrow>
     exclusive s \<and> list_all exclusive (undoStack s) \<and> list_all exclusive (redoStack s)"

text \<open>The model under bright lighting: the generator has answered with image \<open>A-bright\<close>.\<close>

definition brightState :: App where
  "brightState = fst (handleLightingChange (answers ''A-bright'') ''Bright studio lighting'' modelState)"

text \<open>From there, the background is changed to the Parisian cafe (image \<open>A-paris\<close>).\<close>

definition cafeState :: App where
  "cafeState = fst (handleBackgroundChange (answers ''A-paris'') ''A Parisian street cafe'' brightState)"

section \<open>What a snapshot shows\<close>

text \<open>
  The contents of a snapshot: its layers with the objects they refer to read from the
  store, the cursor, the pose index and the two modifiers.
\<close>

type_synonym layerView = "WardrobeItem option \<times> pmap \<times> pmap option \<times> pmap option"

definition layerView :: "heap \<Rightarrow> OutfitLayer \<Rightarrow> layerView" where
  "layerView h layer =
     (garment layer, hget h (poseImages layer),
      map_option (hget h) (backgroundModifiedImages layer),
      map_option (hget h) (lightingModifiedImages layer))"

definition snapshotView ::
  "heap \<Rightarrow> 'a AppStateSnapshot_scheme \<Rightarrow> layerView list \<times> int \<times> int \<times> string \<times> string" where
  "snapshotView h snap =
     (map (layerView h) (outfitHistory snap), currentOutfitIndex snap, currentPoseIndex snap,
      activeBackground snap, activeLighting snap)"

text \<open>The second pose of the model has been generated (image \<open>A-turned\<close>).\<close>

definition posedState :: App where
  "posedState =
     (case handlePoseSelect (answers ''A-turned'') 1 modelState of
        Inr (s, calls) \<Rightarrow> s
      | Inl e \<Rightarrow> modelState)"

text \<open>
  The model in front of the Parisian cafe (image \<open>A-paris\<close>), and then on the beach
  (image \<open>A-beach\<close>).
\<close>

definition parisState :: App where
  "parisState = fst (handleBackgroundChange (answers ''A-paris'') ''A Parisian street cafe'' modelState)"

definition beachState :: App where
  "beachState = fst (handleBackgroundChange (answers ''A-beach'') ''A serene beach at sunset'' parisState)"

text \<open>Every object a layer refers to is in the store.\<close>

definition allocated :: "heap \<Rightarrow> OutfitLayer \<Rightarrow> bool" where
  "allocated h layer \<longleftrightarrow>
     poseImages layer < length h
     \<and> (case backgroundModifiedImages layer of None \<Rightarrow> True | Some r \<Rightarrow> r < length h)
     \<and> (case lightingModifiedImages layer of None \<Rightarrow> True | Some r \<Rightarrow> r < length h)"

section \<open>The states of a session\<close>


text \<open>
  The cursor of a snapshot is on the last layer of its history; before the model is
  finalized the history is empty and the cursor 0.
\<close>

definition cursorLast :: "'a AppStateSnapshot_scheme \<Rightarrow> bool" where
  "cursorLast snap \<longleftrightarrow>
     0 \<le> currentOutfitIndex snap
     \<and> int (length (outfitHistory snap)) = currentOutfitIndex snap + 1
     \<or> outfitHistory snap = [] \<and> currentOutfitIndex snap = 0"

definition allCursorLast :: "App \<Rightarrow> bool" where
  "allCursorLast s \<longleftrightarrow>
     cursorLast s \<and> list_all cursorLast (undoStack s) \<and> list_all cursorLast (redoStack s)"

section \<open>Basic facts\<close>

lemmas manager_defs = updateStateWithHistory_def applyStateSnapshot_def
  getCurrentStateSnapshot_def finallyBlock_def Let_def

lemmas garmentSelect_defs =
  handleGarmentSelect_def handleGarmentSelect_of_def garmentSelect_pending_def

lemmas store_defs = newLayer_def alloc_def hget_def hset_def getProp_def optProp_def
  firstValue_def

lemma falsy_iff: "falsy v = (\<not> truthy v)"
  by (cases v) (simp_all add: truthy_def falsy_def)

lemma poseKey_0: "poseKey 0 = ''Full frontal view, hands on hips''"
  by (simp add: poseKey_def at_def POSE_INSTRUCTIONS_def)

lemma poseKey_1: "poseKey 1 = ''Slightly turned, 3/4 view''"
  by (simp add: poseKey_def at_def POSE_INSTRUCTIONS_def)

lemma modelState_eq:
  "modelState =
     \<lparr> outfitHistory = [baseLayer], currentOutfitIndex = 0, currentPoseIndex = 0,
       activeBackground = ''Default'', activeLighting = ''Default'',
       modelImageUrl = Some ''A'', isLoading = False, loadingMessage = [], error = None,
       isSheetCollapsed = True, wardrobe = [], isLookbookModalOpen = False,
       lookbookUrl = None, undoStack = [], redoStack = [],
       isLookbookTemplateModalOpen = False, isCropModalOpen = False,
       heap = [[(poseKey 0, ''A'')], [], []] \<rparr>"
  by (simp add: modelState_def handleModelFinalized_def initialApp_def newLayer_def alloc_def
      defaultWardrobe_def baseLayer_def)

lemma display_modelState: "displayImageUrl modelState = Some ''A''"
  by (simp add: modelState_eq displayImageUrl_def at_def store_defs truthy_def baseLayer_def)

lemma shirtState_eq:
  "shirtState =
     \<lparr> outfitHistory = [baseLayer, shirtLayer], currentOutfitIndex = 1, currentPoseIndex = 0,
       activeBackground = ''Default'', activeLighting = ''Default'',
       modelImageUrl = Some ''A'', isLoading = False, loadingMessage = [], error = None,
       isSheetCollapsed = True, wardrobe = [shirt], isLookbookModalOpen = False,
       lookbookUrl = None,
       undoStack = [\<lparr> outfitHistory = [baseLayer], currentOutfitIndex = 0,
                      currentPoseIndex = 0, activeBackground = ''Default'',
                      activeLighting = ''Default'' \<rparr>],
       redoStack = [],
       isLookbookTemplateModalOpen = False, isCropModalOpen = False,
       heap = [[(poseKey 0, ''A'')], [], [], [(poseKey 0, ''B'')], [], []] \<rparr>"
  unfolding shirtState_def garmentSelect_defs
  by (simp add: display_modelState falsy_def isNextLayer_def answers_def manager_defs
      garmentSelect_updater_def newLayer_def alloc_def slice_def mergeWardrobe_def)
     (simp add: modelState_eq at_def shirtLayer_def baseLayer_def)

lemma display_shirtState: "displayImageUrl shirtState = Some ''B''"
  by (simp add: shirtState_eq displayImageUrl_def at_def store_defs truthy_def shirtLayer_def)

lemma hatState_eq:
  "hatState =
     \<lparr> outfitHistory = [baseLayer, shirtLayer, hatLayer], currentOutfitIndex = 2,
       currentPoseIndex = 0,
       activeBackground = ''Default'', activeLighting = ''Default'',
       modelImageUrl = Some ''A'', isLoading = False, loadingMessage = [], error = None,
       isSheetCollapsed = True, wardrobe = [shirt, hat], isLookbookModalOpen = False,
       lookbookUrl = None,
       undoStack = [\<lparr> outfitHistory = [baseLayer], currentOutfitIndex = 0,
                      currentPoseIndex = 0, activeBackground = ''Default'',
                      activeLighting = ''Default'' \<rparr>,
                    \<lparr> outfitHistory = [baseLayer, shirtLayer], currentOutfitIndex = 1,
                      currentPoseIndex = 0, activeBackground = ''Default'',
                      activeLighting = ''Default'' \<rparr>],
       redoStack = [],
       isLookbookTemplateModalOpen = False, isCropModalOpen = False,
       heap = [[(poseKey 0, ''A'')], [], [], [(poseKey 0, ''B'')], [], [],
               [(poseKey 0, ''C'')], [], []] \<rparr>"
  unfolding hatState_def garmentSelect_defs
  by (simp add: display_shirtState falsy_def isNextLayer_def answers_def manager_defs
      garmentSelect_updater_def newLayer_def alloc_def slice_def mergeWardrobe_def)
     (simp add: shirtState_eq at_def hatLayer_def shirtLayer_def shirt_def hat_def)



section \<open>Object store\<close>

lemma newLayer_eq:
  "newLayer g k img h =
     (\<lparr> garment = g, poseImages = length h, backgroundModifiedImages = Some (length h + 1),
        lightingModifiedImages = Some (length h + 2) \<rparr>, h @ [[(k, img)], [], []])"
  by (simp add: newLayer_def alloc_def)

lemma hget_new [simp]:
  "hget (h @ [a, b, c]) (length h) = a"
  "hget (h @ [a, b, c]) (Suc (length h)) = b"
  "hget (h @ [a, b, c]) (Suc (Suc (length h))) = c"
  by (simp_all add: hget_def nth_append)

lemma hget_old [simp]: "r < length h \<Longrightarrow> hget (h @ xs) r = hget h r"
  by (simp add: hget_def nth_append)

lemma slice_nonneg: "0 \<le> i \<Longrightarrow> slice xs i = take (nat i) xs"
  by (simp add: slice_def)


section \<open>Colour change and magic-wand edit\<close>

lemma replaceBase_commit:
  assumes "0 \<le> i" "i < int (length (outfitHistory c))"
  shows "updateStateWithHistory c (replaceBase_updater i img) s1 =
     Some (s1\<lparr> outfitHistory := take (nat i) (outfitHistory c) @
                   [\<lparr> garment = garment (outfitHistory c ! nat i),
                      poseImages = length (heap s1),
                      backgroundModifiedImages = Some (length (heap s1) + 1),
                      lightingModifiedImages = Some (length (heap s1) + 2) \<rparr>],
                currentOutfitIndex := i, currentPoseIndex := 0,
                activeBackground := ''Default'', activeLighting := ''Default'',
                undoStack := undoStack s1 @ [getCurrentStateSnapshot c], redoStack := [],
                heap := heap s1 @ [[(poseKey 0, img)], [], []] \<rparr>)"
  using assms
  by (simp add: manager_defs replaceBase_updater_def newLayer_eq slice_nonneg at_def)

lemma replaceBase_result:
  assumes i: "0 \<le> i" "i < int (length (outfitHistory s))"
    and run: "handleColorChangeAtIndex remote i arg s = Inr (s', [req])
            \<or> handleMagicWandEditAtIndex remote i arg s = Inr (s', [req])"
    and ok: "remote req = Inr newImage"
  shows "s' = s\<lparr> error := None, isLoading := False, loadingMessage := [],
                outfitHistory := take (nat i) (outfitHistory s) @
                   [\<lparr> garment = garment (outfitHistory s ! nat i),
                      poseImages = length (heap s),
                      backgroundModifiedImages = Some (length (heap s) + 1),
                      lightingModifiedImages = Some (length (heap s) + 2) \<rparr>],
                currentOutfitIndex := i, currentPoseIndex := 0,
                activeBackground := ''Default'', activeLighting := ''Default'',
                undoStack := undoStack s @ [getCurrentStateSnapshot s], redoStack := [],
                heap := heap s @ [[(poseKey 0, newImage)], [], []] \<rparr>"
  using run ok i
  by (auto simp: handleColorChangeAtIndex_def handleMagicWandEditAtIndex_def Let_def
      replaceBase_commit finallyBlock_def falsy_def split: sum.splits option.splits if_splits)

lemma replaceBase_sends:
  assumes i: "0 \<le> i" "i < int (length (outfitHistory s))"
    and idle: "\<not> isLoading s"
    and base: "baseImageAt s i = Inr (Some b)" "b \<noteq> []"
  shows "\<exists>s1. handleColorChangeAtIndex remote i arg s = Inr (s1, [ChangeGarmentColor b arg])"
    and "\<exists>s2. handleMagicWandEditAtIndex remote i arg s = Inr (s2, [MagicWandEdit b arg])"
  using i idle base
  by (auto simp: handleColorChangeAtIndex_def handleMagicWandEditAtIndex_def Let_def
      replaceBase_commit falsy_def split: sum.splits)

text \<open>
  Claim C3. In a history of length \<open>n\<close>, at an index \<open>i\<close> with \<open>i + 1 < n\<close>, a colour change
  or a magic-wand edit whose request the generator answers with \<open>newImage\<close> leaves a
  history of length \<open>i + 1\<close>; its layer at \<open>i\<close> has the pose images
  \<open>{defaultPose: newImage}\<close> and empty background and lighting caches; the layers before
  \<open>i\<close> and the garment at \<open>i\<close> are the old ones; the cursor is \<open>i\<close>, the pose index 0 and
  both modifiers \<open>Default\<close>. And the edit is made: when no generation is in flight and the
  layer at \<open>i\<close> has a base image \<open>b\<close>, either handler sends exactly one request to the
  generator, the colour change (the magic-wand edit) of \<open>b\<close>.
\<close>

theorem replaceBase_edit:
  assumes idx: "0 \<le> i" "i + 1 < int (length (outfitHistory s))"
  shows "((handleColorChangeAtIndex remote i arg s = Inr (s', [req])
           \<or> handleMagicWandEditAtIndex remote i arg s = Inr (s', [req]))
          \<and> remote req = Inr newImage \<longrightarrow>
            length (outfitHistory s') = nat i + 1
          \<and> take (nat i) (outfitHistory s') = take (nat i) (outfitHistory s)
          \<and> garment (outfitHistory s' ! nat i) = garment (outfitHistory s ! nat i)
          \<and> hget (heap s') (poseImages (outfitHistory s' ! nat i)) = [(poseKey 0, newImage)]
          \<and> map_option (hget (heap s')) (backgroundModifiedImages (outfitHistory s' ! nat i)) = Some []
          \<and> map_option (hget (heap s')) (lightingModifiedImages (outfitHistory s' ! nat i)) = Some []
          \<and> currentOutfitIndex s' = i \<and> currentPoseIndex s' = 0
          \<and> activeBackground s' = ''Default'' \<and> activeLighting s' = ''Default'')
       \<and> (\<not> isLoading s \<and> baseImageAt s i = Inr (Some b) \<and> b \<noteq> [] \<longrightarrow>
            (\<exists>s1. handleColorChangeAtIndex remote i arg s = Inr (s1, [ChangeGarmentColor b arg]))
          \<and> (\<exists>s2. handleMagicWandEditAtIndex remote i arg s = Inr (s2, [MagicWandEdit b arg])))"
proof -
  have i: "0 \<le> i" "i < int (length (outfitHistory s))" "nat i < length (outfitHistory s)"
    using idx by simp_all
  have result: "length (outfitHistory s') = nat i + 1
          \<and> take (nat i) (outfitHistory s') = take (nat i) (outfitHistory s)
          \<and> garment (outfitHistory s' ! nat i) = garment (outfitHistory s ! nat i)
          \<and> hget (heap s') (poseImages (outfitHistory s' ! nat i)) = [(poseKey 0, newImage)]
          \<and> map_option (hget (heap s')) (backgroundModifiedImages (outfitHistory s' ! nat i)) = Some []
          \<and> map_option (hget (heap s')) (lightingModifiedImages (outfitHistory s' ! nat i)) = Some []
          \<and> currentOutfitIndex s' = i \<and> currentPoseIndex s' = 0
          \<and> activeBackground s' = ''Default'' \<and> activeLighting s' = ''Default''"
    if run: "handleColorChangeAtIndex remote i arg s = Inr (s', [req])
           \<or> handleMagicWandEditAtIndex remote i arg s = Inr (s', [req])"
      and ok: "remote req = Inr newImage"
    using i(3) by (simp add: replaceBase_result [OF i(1,2) run ok] nth_append)
  have sends: "(\<exists>s1. handleColorChangeAtIndex remote i arg s = Inr (s1, [ChangeGarmentColor b arg]))
          \<and> (\<exists>s2. handleMagicWandEditAtIndex remote i arg s = Inr (s2, [MagicWandEdit b arg]))"
    if "\<not> isLoading s" "baseImageAt s i = Inr (Some b)" "b \<noteq> []"
    using replaceBase_sends [OF i(1,2) that] by simp
  show ?thesis
    using result sends by blast
qed

lemma base_hatState: "baseImageAt hatState 1 = Inr (Some ''B'')" "\<not> isLoading hatState"
  by (simp_all add: baseImageAt_def hatState_eq at_def shirtLayer_def store_defs)

lemma recolour_run:
  "handleColorChangeAtIndex (answers ''D'') 1 ''#EF4444'' hatState =
     Inr (recolouredState, [ChangeGarmentColor ''B'' ''#EF4444''])"
proof -
  have c: "updateStateWithHistory hatState (replaceBase_updater 1 ''D'') s1 \<noteq> None" for s1
    by (simp add: replaceBase_commit hatState_eq)
  show ?thesis
    using c [of "hatState\<lparr> error := None, isLoading := True,
                  loadingMessage := tr ''app.loading.coloring'' @ '' '' @ ''#EF4444'' @ ''...'' \<rparr>"]
    by (auto simp add: recolouredState_def handleColorChangeAtIndex_def base_hatState falsy_def
        Let_def answers_def split: option.splits)
qed

lemma edit_run:
  "handleMagicWandEditAtIndex (answers ''E'') 1 ''make it sleeveless'' hatState =
     Inr (editedState, [MagicWandEdit ''B'' ''make it sleeveless''])"
proof -
  have c: "updateStateWithHistory hatState (replaceBase_updater 1 ''E'') s1 \<noteq> None" for s1
    by (simp add: replaceBase_commit hatState_eq)
  show ?thesis
    using c [of "hatState\<lparr> error := None, isLoading := True,
                  loadingMessage := tr ''magicWand.label'' \<rparr>"]
    by (auto simp add: editedState_def handleMagicWandEditAtIndex_def base_hatState falsy_def
        Let_def answers_def split: option.splits)
qed

theorem replaceBase_edit_witness:
  "(0::int) \<le> 1 \<and> 1 + 1 < int (length (outfitHistory hatState))
   \<and> outfitHistory hatState = [baseLayer, shirtLayer, hatLayer]
   \<and> \<not> isLoading hatState \<and> baseImageAt hatState 1 = Inr (Some ''B'')
   \<and> handleColorChangeAtIndex (answers ''D'') 1 ''#EF4444'' hatState =
       Inr (recolouredState, [ChangeGarmentColor ''B'' ''#EF4444''])
   \<and> answers ''D'' (ChangeGarmentColor ''B'' ''#EF4444'') = Inr ''D''
   \<and> length (outfitHistory recolouredState) = 2
   \<and> take 1 (outfitHistory recolouredState) = [baseLayer]
   \<and> garment (outfitHistory recolouredState ! 1) = Some shirt
   \<and> hget (heap recolouredState) (poseImages (outfitHistory recolouredState ! 1)) = [(poseKey 0, ''D'')]
   \<and> map_option (hget (heap recolouredState))
         (backgroundModifiedImages (outfitHistory recolouredState ! 1)) = Some []
   \<and> map_option (hget (heap recolouredState))
         (lightingModifiedImages (outfitHistory recolouredState ! 1)) = Some []
   \<and> currentOutfitIndex recolouredState = 1 \<and> currentPoseIndex recolouredState = 0
   \<and> activeBackground recolouredState = ''Default''
   \<and> activeLighting recolouredState = ''Default''
   \<and> handleMagicWandEditAtIndex (answers ''E'') 1 ''make it sleeveless'' hatState =
       Inr (editedState, [MagicWandEdit ''B'' ''make it sleeveless''])
   \<and> answers ''E'' (MagicWandEdit ''B'' ''make it sleeveless'') = Inr ''E''
   \<and> length (outfitHistory editedState) = 2
   \<and> take 1 (outfitHistory editedState) = [baseLayer]
   \<and> garment (outfitHistory editedState ! 1) = Some shirt
   \<and> hget (heap editedState) (poseImages (outfitHistory editedState ! 1)) = [(poseKey 0, ''E'')]
   \<and> map_option (hget (heap editedState))
         (backgroundModifiedImages (outfitHistory editedState ! 1)) = Some []
   \<and> map_option (hget (heap editedState))
         (lightingModifiedImages (outfitHistory editedState ! 1)) = Some []
   \<and> currentOutfitIndex editedState = 1 \<and> currentPoseIndex editedState = 0
   \<and> activeBackground editedState = ''Default''
   \<and> activeLighting editedState = ''Default''"
proof -
  have h: "(0::int) \<le> 1" "1 + 1 < int (length (outfitHistory hatState))"
    "outfitHistory hatState = [baseLayer, shirtLayer, hatLayer]"
    by (simp_all add: hatState_eq)
  have r: "answers ''D'' (ChangeGarmentColor ''B'' ''#EF4444'') = Inr ''D''"
    "answers ''E'' (MagicWandEdit ''B'' ''make it sleeveless'') = Inr ''E''"
    by (simp_all add: answers_def)
  have g: "garment (outfitHistory hatState ! 1) = Some shirt"
    "take 1 (outfitHistory hatState) = [baseLayer]"
    by (simp_all add: h(3) shirtLayer_def)
  note colour = replaceBase_edit [where i = 1 and s = hatState and s' = recolouredState
      and remote = "answers ''D''" and arg = "''#EF4444''"
      and req = "ChangeGarmentColor ''B'' ''#EF4444''" and newImage = "''D''" and b = "''B''",
      OF h(1,2)]
  note wand = replaceBase_edit [where i = 1 and s = hatState and s' = editedState
      and remote = "answers ''E''" and arg = "''make it sleeveless''"
      and req = "MagicWandEdit ''B'' ''make it sleeveless''" and newImage = "''E''"
      and b = "''B''", OF h(1,2)]
  from colour have c: "length (outfitHistory recolouredState) = 2
       \<and> take 1 (outfitHistory recolouredState) = [baseLayer]
       \<and> garment (outfitHistory recolouredState ! 1) = Some shirt
       \<and> hget (heap recolouredState) (poseImages (outfitHistory recolouredState ! 1)) = [(poseKey 0, ''D'')]
       \<and> map_option (hget (heap recolouredState))
         (backgroundModifiedImages (outfitHistory recolouredState ! 1)) = Some []
       \<and> map_option (hget (heap recolouredState))
         (lightingModifiedImages (outfitHistory recolouredState ! 1)) = Some []
       \<and> currentOutfitIndex recolouredState = 1 \<and> currentPoseIndex recolouredState = 0
       \<and> activeBackground recolouredState = ''Default''
       \<and> activeLighting recolouredState = ''Default''"
    using recolour_run r(1) g by simp
  from wand have e: "length (outfitHistory editedState) = 2
       \<and> take 1 (outfitHistory editedState) = [baseLayer]
       \<and> garment (outfitHistory editedState ! 1) = Some shirt
       \<and> hget (heap editedState) (poseImages (outfitHistory editedState ! 1)) = [(poseKey 0, ''E'')]
       \<and> map_option (hget (heap editedState))
         (backgroundModifiedImages (outfitHistory editedState ! 1)) = Some []
       \<and> map_option (hget (heap editedState))
         (lightingModifiedImages (outfitHistory editedState ! 1)) = Some []
       \<and> currentOutfitIndex editedState = 1 \<and> currentPoseIndex editedState = 0
       \<and> activeBackground editedState = ''Default''
       \<and> activeLighting editedState = ''Default''"
    using edit_run r(2) g by simp
  show ?thesis
    using h r base_hatState recolour_run edit_run c e by simp
qed

section \<open>Crop\<close>

lemma crop_commit:
  assumes "0 \<le> currentOutfitIndex c" "currentOutfitIndex c < int (length (outfitHistory c))"
  shows "updateStateWithHistory c (crop_updater img) s1 =
     Some (s1\<lparr> outfitHistory := take (nat (currentOutfitIndex c)) (outfitHistory c) @
                   [\<lparr> garment = garment (outfitHistory c ! nat (currentOutfitIndex c)),
                      poseImages = length (heap s1),
                      backgroundModifiedImages = Some (length (heap s1) + 1),
                      lightingModifiedImages = Some (length (heap s1) + 2) \<rparr>],
                currentOutfitIndex := currentOutfitIndex c,
                currentPoseIndex := currentPoseIndex c,
                activeBackground := ''Default'', activeLighting := ''Default'',
                undoStack := undoStack s1 @ [getCurrentStateSnapshot c], redoStack := [],
                heap := heap s1 @ [[(poseKey (currentPoseIndex c), img)], [], []] \<rparr>)"
  using assms
  by (simp add: manager_defs crop_updater_def newLayer_eq slice_nonneg at_def)


section \<open>Displayed image\<close>



section \<open>Undo, redo and the wardrobe\<close>

lemma garmentSelect_commit:
  "updateStateWithHistory c (garmentSelect_updater g img) s1 =
     Some (s1\<lparr> outfitHistory := slice (outfitHistory c) (currentOutfitIndex c + 1) @
                   [\<lparr> garment = Some g, poseImages = length (heap s1),
                      backgroundModifiedImages = Some (length (heap s1) + 1),
                      lightingModifiedImages = Some (length (heap s1) + 2) \<rparr>],
                currentOutfitIndex := int (length (slice (outfitHistory c) (currentOutfitIndex c + 1))),
                currentPoseIndex := 0,
                activeBackground := ''Default'', activeLighting := ''Default'',
                undoStack := undoStack s1 @ [getCurrentStateSnapshot c], redoStack := [],
                heap := heap s1 @ [[(poseKey 0, img)], [], []] \<rparr>)"
  by (simp add: manager_defs garmentSelect_updater_def newLayer_eq)

lemma garmentReselect_commit:
  "updateStateWithHistory c garmentReselect_updater s1 =
     Some (s1\<lparr> currentOutfitIndex := currentOutfitIndex c + 1,
                currentPoseIndex := 0,
                activeBackground := ''Default'', activeLighting := ''Default'',
                outfitHistory := outfitHistory c,
                undoStack := undoStack s1 @ [getCurrentStateSnapshot c], redoStack := [] \<rparr>)"
  by (simp add: manager_defs garmentReselect_updater_def)

lemma garmentSelect_success:
  assumes run: "handleGarmentSelect remote garmentFile garmentInfo s = (s', [req])"
    and ok: "remote req = Inr img"
  shows "s' = s\<lparr> error := None, isLoading := False, loadingMessage := [],
                outfitHistory := slice (outfitHistory s) (currentOutfitIndex s + 1) @
                   [\<lparr> garment = Some garmentInfo, poseImages = length (heap s),
                      backgroundModifiedImages = Some (length (heap s) + 1),
                      lightingModifiedImages = Some (length (heap s) + 2) \<rparr>],
                currentOutfitIndex := int (length (slice (outfitHistory s) (currentOutfitIndex s + 1))),
                currentPoseIndex := 0,
                activeBackground := ''Default'', activeLighting := ''Default'',
                undoStack := undoStack s @ [getCurrentStateSnapshot s], redoStack := [],
                heap := heap s @ [[(poseKey 0, img)], [], []],
                wardrobe := mergeWardrobe garmentInfo (wardrobe s) \<rparr>"
  using run ok
  by (auto simp: garmentSelect_defs Let_def garmentSelect_commit garmentReselect_commit
      finallyBlock_def falsy_def split: sum.splits option.splits if_splits)

lemma wardrobe_handleUndo: "wardrobe (handleUndo t) = wardrobe t"
  by (simp add: handleUndo_def Let_def applyStateSnapshot_def)

lemma wardrobe_handleRedo: "wardrobe (handleRedo t) = wardrobe t"
  by (simp add: handleRedo_def Let_def applyStateSnapshot_def)

text \<open>
  Claim C10. The wardrobe is no field of the snapshot. After an apply-garment run whose
  request the generator answers and whose garment id is not yet in the wardrobe, undo
  restores the history, the cursor, the pose index and both modifiers of the state before
  the run (and the objects of the store that state refers to are as they were), while the
  wardrobe keeps the merged garment. Undo and redo never change the wardrobe.
\<close>

theorem wardrobe_outside_undo:
  assumes run: "handleGarmentSelect remote garmentFile garmentInfo s = (s', [req])"
    and ok: "remote req = Inr img"
    and new: "List.find (\<lambda>item. id' item = id' garmentInfo) (wardrobe s) = None"
  shows "getCurrentStateSnapshot (handleUndo s') = getCurrentStateSnapshot s
       \<and> take (length (heap s)) (heap (handleUndo s')) = heap s
       \<and> wardrobe s' = wardrobe s @ [garmentInfo]
       \<and> wardrobe (handleUndo s') = wardrobe s @ [garmentInfo]
       \<and> wardrobe (handleUndo t) = wardrobe t
       \<and> wardrobe (handleRedo t) = wardrobe t"
proof -
  note s' = garmentSelect_success [OF run ok]
  have w: "wardrobe s' = wardrobe s @ [garmentInfo]"
    by (simp add: s' mergeWardrobe_def new)
  have u: "getCurrentStateSnapshot (handleUndo s') = getCurrentStateSnapshot s"
    "heap (handleUndo s') = heap s @ [[(poseKey 0, img)], [], []]"
    by (simp_all add: s' handleUndo_def Let_def applyStateSnapshot_def getCurrentStateSnapshot_def)
  show ?thesis
    by (simp add: u w wardrobe_handleUndo wardrobe_handleRedo)
qed

theorem wardrobe_outside_undo_witness:
  "handleGarmentSelect (answers ''B'') ''shirt-file'' shirt modelState =
     (shirtState, [GenerateVirtualTryOnImage ''A'' ''shirt-file'' shirt])
   \<and> answers ''B'' (GenerateVirtualTryOnImage ''A'' ''shirt-file'' shirt) = Inr ''B''
   \<and> wardrobe modelState = []
   \<and> getCurrentStateSnapshot (handleUndo shirtState) = getCurrentStateSnapshot modelState
   \<and> outfitHistory (handleUndo shirtState) = [baseLayer]
   \<and> wardrobe (handleUndo shirtState) = [shirt]
   \<and> wardrobe (handleRedo (handleUndo shirtState)) = [shirt]"
proof -
  have run: "handleGarmentSelect (answers ''B'') ''shirt-file'' shirt modelState =
     (shirtState, [GenerateVirtualTryOnImage ''A'' ''shirt-file'' shirt])"
    unfolding shirtState_def garmentSelect_defs
    by (simp add: display_modelState falsy_def isNextLayer_def answers_def Let_def
        garmentSelect_commit)
       (simp add: modelState_eq at_def)
  have ok: "answers ''B'' (GenerateVirtualTryOnImage ''A'' ''shirt-file'' shirt) = Inr ''B''"
    by (simp add: answers_def)
  have new: "List.find (\<lambda>item. id' item = id' shirt) (wardrobe modelState) = None"
    "wardrobe modelState = []" "outfitHistory modelState = [baseLayer]"
    by (simp_all add: modelState_eq)
  from wardrobe_outside_undo [OF run ok new(1), of "handleUndo shirtState"]
  show ?thesis
    using run ok new(2,3) by (simp add: getCurrentStateSnapshot_def)
qed

section \<open>A failed generation\<close>










section \<open>The busy gate\<close>







section \<open>The active layers\<close>

lemma revert_commit:
  "handleRevertToLayer index s =
     s\<lparr> outfitHistory := slice (outfitHistory s) index, currentOutfitIndex := index - 1,
        currentPoseIndex := 0, activeBackground := ''Default'', activeLighting := ''Default'',
        undoStack := undoStack s @ [getCurrentStateSnapshot s], redoStack := [] \<rparr>"
  by (simp add: handleRevertToLayer_def manager_defs revert_updater_def)

lemma revertButtons_iff:
  "index \<in> set (revertButtons layers) \<longleftrightarrow> 0 < index \<and> index < int (length layers)"
proof
  assume "index \<in> set (revertButtons layers)"
  then show "0 < index \<and> index < int (length layers)"
    by (auto simp: revertButtons_def)
next
  assume "0 < index \<and> index < int (length layers)"
  then have "nat index \<in> set (filter (\<lambda>index. 0 < index) [0 ..< length layers])"
    and "index = int (nat index)"
    by auto
  then show "index \<in> set (revertButtons layers)"
    unfolding revertButtons_def by (metis image_eqI set_map)
qed

lemma stacked_garmentSelect:
  assumes "stacked base s"
  shows "stacked base (fst (handleGarmentSelect remote f g s))"
proof -
  have take: "slice (outfitHistory s) (currentOutfitIndex s + 1)
                = take (nat (currentOutfitIndex s) + 1) (outfitHistory s)"
    using assms by (simp add: stacked_def slice_def nat_add_distrib)
  have n: "isNextLayer s g \<Longrightarrow> currentOutfitIndex s + 1 < int (length (outfitHistory s))"
    by (auto simp: isNextLayer_def at_def split: option.splits if_splits)
  show ?thesis
    using assms n
    by (auto simp: garmentSelect_defs Let_def garmentSelect_commit garmentReselect_commit
        finallyBlock_def stacked_def take hd_append split: sum.splits)
qed

lemma stacked_revert:
  assumes "stacked base s" "index \<in> set (revertButtons (activeOutfitLayers s))"
  shows "stacked base (handleRevertToLayer index s)"
  using assms
  by (auto simp: revert_commit stacked_def revertButtons_iff activeOutfitLayers_def slice_def
      split: if_splits)

lemma stacked_performAll:
  "stacked base s \<Longrightarrow> offeredAll as s \<Longrightarrow> stacked base (performAll as s)"
proof (induction as arbitrary: s)
  case Nil
  then show ?case by simp
next
  case (Cons a as)
  have "stacked base (perform a s)"
    using Cons.prems
    by (cases a) (simp_all add: perform_def offered_def stacked_garmentSelect stacked_revert)
  then show ?case
    using Cons by simp
qed

text \<open>
  Claim C6. Start from a state whose history is the base layer alone (garment \<open>null\<close>)
  with the cursor at 0, and perform any sequence of apply-garment operations (whatever the
  generator answers) and of revert operations, each on a layer whose remove button the
  outfit stack renders (the revert operations there are: the indices from 1 up to the
  cursor). Then the active layers start with the base layer and there are
  \<open>currentOutfitIndex + 1\<close> of them.
\<close>

theorem active_layers_of_runs:
  assumes init: "outfitHistory s0 = [base]" "garment base = None" "currentOutfitIndex s0 = 0"
    and off: "offeredAll acts s0"
    and s: "s = performAll acts s0"
  shows "int (length (activeOutfitLayers s)) = currentOutfitIndex s + 1
       \<and> hd (activeOutfitLayers s) = base
       \<and> activeOutfitLayers s \<noteq> []
       \<and> garment (hd (activeOutfitLayers s)) = None"
proof -
  have "stacked base s0"
    using init by (simp add: stacked_def)
  then have "stacked base s"
    unfolding s using off by (rule stacked_performAll)
  then show ?thesis
    using init(2)
    by (auto simp: stacked_def activeOutfitLayers_def slice_def nat_add_distrib
        min_def split: if_splits)
qed

theorem active_layers_of_runs_witness:
  "outfitHistory modelState = [baseLayer] \<and> garment baseLayer = None
   \<and> currentOutfitIndex modelState = 0
   \<and> offeredAll [ApplyGarment ''shirt-file'' shirt (Inr ''B''),
                   ApplyGarment ''hat-file'' hat (Inr ''C''), RevertToLayer 2] modelState
   \<and> activeOutfitLayers
        (performAll [ApplyGarment ''shirt-file'' shirt (Inr ''B''),
                     ApplyGarment ''hat-file'' hat (Inr ''C''), RevertToLayer 2] modelState) =
       [baseLayer, shirtLayer]
   \<and> currentOutfitIndex
        (performAll [ApplyGarment ''shirt-file'' shirt (Inr ''B''),
                     ApplyGarment ''hat-file'' hat (Inr ''C''), RevertToLayer 2] modelState) = 1"
proof -
  let ?acts = "[ApplyGarment ''shirt-file'' shirt (Inr ''B''),
                ApplyGarment ''hat-file'' hat (Inr ''C''), RevertToLayer 2]"
  have i: "outfitHistory modelState = [baseLayer]" "garment baseLayer = None"
    "currentOutfitIndex modelState = 0"
    by (simp_all add: modelState_eq baseLayer_def)
  have p1: "perform (ApplyGarment ''shirt-file'' shirt (Inr ''B'')) modelState = shirtState"
    by (simp add: perform_def shirtState_def answers_def)
  have p2: "perform (ApplyGarment ''hat-file'' hat (Inr ''C'')) shirtState = hatState"
    by (simp add: perform_def hatState_def answers_def)
  have r: "2 \<in> set (revertButtons (activeOutfitLayers hatState))"
    by (simp add: revertButtons_iff activeOutfitLayers_def slice_def hatState_eq)
  have off: "offeredAll ?acts modelState"
    by (simp add: p1 p2 offered_def r)
  have run: "performAll ?acts modelState = handleRevertToLayer 2 hatState"
    by (simp add: p1 p2) (simp add: perform_def)
  have a: "activeOutfitLayers (handleRevertToLayer 2 hatState) = [baseLayer, shirtLayer]"
    "currentOutfitIndex (handleRevertToLayer 2 hatState) = 1"
    by (simp_all add: revert_commit activeOutfitLayers_def slice_def hatState_eq)
  have c: "activeOutfitLayers (performAll ?acts modelState) = [baseLayer, shirtLayer]"
    "currentOutfitIndex (performAll ?acts modelState) = 1"
    by (simp_all only: run a)
  from active_layers_of_runs [OF i off refl]
  show ?thesis
    using i off c by blast
qed

section \<open>The cursor stays on the last layer\<close>

lemma cursorLast_frame [simp]:
  "cursorLast (s\<lparr> error := e \<rparr>) = cursorLast s"
  "cursorLast (s\<lparr> isLoading := b \<rparr>) = cursorLast s"
  "cursorLast (s\<lparr> loadingMessage := m \<rparr>) = cursorLast s"
  "cursorLast (s\<lparr> wardrobe := w \<rparr>) = cursorLast s"
  "cursorLast (s\<lparr> lookbookUrl := l \<rparr>) = cursorLast s"
  "cursorLast (s\<lparr> isLookbookModalOpen := b \<rparr>) = cursorLast s"
  "cursorLast (s\<lparr> isLookbookTemplateModalOpen := b \<rparr>) = cursorLast s"
  "cursorLast (s\<lparr> isCropModalOpen := b \<rparr>) = cursorLast s"
  "cursorLast (s\<lparr> isSheetCollapsed := b \<rparr>) = cursorLast s"
  "cursorLast (s\<lparr> modelImageUrl := l \<rparr>) = cursorLast s"
  "cursorLast (s\<lparr> heap := h \<rparr>) = cursorLast s"
  "cursorLast (s\<lparr> undoStack := us \<rparr>) = cursorLast s"
  "cursorLast (s\<lparr> redoStack := rs \<rparr>) = cursorLast s"
  "cursorLast (s\<lparr> currentPoseIndex := i \<rparr>) = cursorLast s"
  "cursorLast (s\<lparr> activeBackground := a \<rparr>) = cursorLast s"
  "cursorLast (s\<lparr> activeLighting := a \<rparr>) = cursorLast s"
  by (simp_all add: cursorLast_def)

lemma allCursorLast_frame [simp]:
  "allCursorLast (s\<lparr> error := e \<rparr>) = allCursorLast s"
  "allCursorLast (s\<lparr> isLoading := b \<rparr>) = allCursorLast s"
  "allCursorLast (s\<lparr> loadingMessage := m \<rparr>) = allCursorLast s"
  "allCursorLast (s\<lparr> wardrobe := w \<rparr>) = allCursorLast s"
  "allCursorLast (s\<lparr> lookbookUrl := l \<rparr>) = allCursorLast s"
  "allCursorLast (s\<lparr> isLookbookModalOpen := b \<rparr>) = allCursorLast s"
  "allCursorLast (s\<lparr> isLookbookTemplateModalOpen := b \<rparr>) = allCursorLast s"
  "allCursorLast (s\<lparr> isCropModalOpen := b \<rparr>) = allCursorLast s"
  "allCursorLast (s\<lparr> isSheetCollapsed := b \<rparr>) = allCursorLast s"
  "allCursorLast (s\<lparr> modelImageUrl := l \<rparr>) = allCursorLast s"
  "allCursorLast (s\<lparr> heap := h \<rparr>) = allCursorLast s"
  "allCursorLast (s\<lparr> currentPoseIndex := i \<rparr>) = allCursorLast s"
  "allCursorLast (s\<lparr> activeBackground := a \<rparr>) = allCursorLast s"
  "allCursorLast (s\<lparr> activeLighting := a \<rparr>) = allCursorLast s"
  by (simp_all add: allCursorLast_def cursorLast_def)

lemma cursorLast_snapshot [simp]: "cursorLast (getCurrentStateSnapshot c) = cursorLast c"
  by (simp add: cursorLast_def getCurrentStateSnapshot_def)

























section \<open>Crop in a session\<close>






section \<open>Selecting a garment again\<close>




text \<open>
  The reselection branch of the callback, on any render with a layer of the garment ahead
  of its cursor (by \<open>operated_not_next\<close> no state of a session is such a render): no request,
  the cursor advanced by one on the render's history.
\<close>

lemma reselect_branch:
  assumes "isNextLayer c g" "\<not> isLoading c" "displayImageUrl c = Some d" "d \<noteq> []"
  shows "handleGarmentSelect_of c remote f g s =
     (s\<lparr> outfitHistory := outfitHistory c,
         currentOutfitIndex := currentOutfitIndex c + 1,
         currentPoseIndex := 0,
         activeBackground := ''Default'', activeLighting := ''Default'',
         undoStack := undoStack s @ [getCurrentStateSnapshot c], redoStack := [] \<rparr>, [])"
  using assms
  by (simp add: handleGarmentSelect_of_def falsy_def garmentReselect_commit)





section \<open>Background and lighting exclude each other\<close>

lemma allExclusive_frame [simp]:
  "allExclusive (s\<lparr> error := e \<rparr>) = allExclusive s"
  "allExclusive (s\<lparr> isLoading := b \<rparr>) = allExclusive s"
  "allExclusive (s\<lparr> loadingMessage := m \<rparr>) = allExclusive s"
  "allExclusive (s\<lparr> wardrobe := w \<rparr>) = allExclusive s"
  "allExclusive (s\<lparr> lookbookUrl := l \<rparr>) = allExclusive s"
  "allExclusive (s\<lparr> isLookbookModalOpen := b \<rparr>) = allExclusive s"
  "allExclusive (s\<lparr> isLookbookTemplateModalOpen := b \<rparr>) = allExclusive s"
  "allExclusive (s\<lparr> isCropModalOpen := b \<rparr>) = allExclusive s"
  "allExclusive (s\<lparr> isSheetCollapsed := b \<rparr>) = allExclusive s"
  "allExclusive (s\<lparr> modelImageUrl := l \<rparr>) = allExclusive s"
  "allExclusive (s\<lparr> heap := h \<rparr>) = allExclusive s"
  "allExclusive (s\<lparr> outfitHistory := hist \<rparr>) = allExclusive s"
  "allExclusive (s\<lparr> currentOutfitIndex := i \<rparr>) = allExclusive s"
  "allExclusive (s\<lparr> currentPoseIndex := i \<rparr>) = allExclusive s"
  by (simp_all add: allExclusive_def exclusive_def)

lemma allExclusive_undo: "allExclusive s \<Longrightarrow> allExclusive (handleUndo s)"
  by (cases "undoStack s" rule: rev_cases)
     (simp_all add: handleUndo_def Let_def allExclusive_def applyStateSnapshot_def exclusive_def
        getCurrentStateSnapshot_def)

lemma allExclusive_redo: "allExclusive s \<Longrightarrow> allExclusive (handleRedo s)"
  by (cases "redoStack s" rule: rev_cases)
     (simp_all add: handleRedo_def Let_def allExclusive_def applyStateSnapshot_def exclusive_def
        getCurrentStateSnapshot_def)

lemma commit_exclusive:
  "updateStateWithHistory c (garmentSelect_updater g img) s = Some s' \<Longrightarrow>
     exclusive s' \<and> undoStack s' = undoStack s @ [getCurrentStateSnapshot c] \<and> redoStack s' = []"
  "updateStateWithHistory c garmentReselect_updater s = Some s' \<Longrightarrow>
     exclusive s' \<and> undoStack s' = undoStack s @ [getCurrentStateSnapshot c] \<and> redoStack s' = []"
  "updateStateWithHistory c (revert_updater i) s = Some s' \<Longrightarrow>
     exclusive s' \<and> undoStack s' = undoStack s @ [getCurrentStateSnapshot c] \<and> redoStack s' = []"
  "updateStateWithHistory c (poseCached_updater i) s = Some s' \<Longrightarrow>
     exclusive s' \<and> undoStack s' = undoStack s @ [getCurrentStateSnapshot c] \<and> redoStack s' = []"
  "updateStateWithHistory c (poseSelect_updater k img i) s = Some s' \<Longrightarrow>
     exclusive s' \<and> undoStack s' = undoStack s @ [getCurrentStateSnapshot c] \<and> redoStack s' = []"
  "updateStateWithHistory c (replaceBase_updater i img) s = Some s' \<Longrightarrow>
     exclusive s' \<and> undoStack s' = undoStack s @ [getCurrentStateSnapshot c] \<and> redoStack s' = []"
  "updateStateWithHistory c (background_updater k img arg) s = Some s' \<Longrightarrow>
     exclusive s' \<and> undoStack s' = undoStack s @ [getCurrentStateSnapshot c] \<and> redoStack s' = []"
  "updateStateWithHistory c (lighting_updater k img arg) s = Some s' \<Longrightarrow>
     exclusive s' \<and> undoStack s' = undoStack s @ [getCurrentStateSnapshot c] \<and> redoStack s' = []"
  "updateStateWithHistory c (crop_updater img) s = Some s' \<Longrightarrow>
     exclusive s' \<and> undoStack s' = undoStack s @ [getCurrentStateSnapshot c] \<and> redoStack s' = []"
  by (auto simp: manager_defs garmentSelect_updater_def poseSelect_updater_def
      replaceBase_updater_def background_updater_def lighting_updater_def
      garmentReselect_updater_def revert_updater_def poseCached_updater_def crop_updater_def
      exclusive_def newLayer_eq alloc_def split: option.splits prod.splits)

lemma commit_default_exclusive:
  "exclusive c \<Longrightarrow> updateStateWithHistory c backgroundDefault_updater s = Some s' \<Longrightarrow>
     exclusive s' \<and> undoStack s' = undoStack s @ [getCurrentStateSnapshot c] \<and> redoStack s' = []"
  "exclusive c \<Longrightarrow> updateStateWithHistory c lightingDefault_updater s = Some s' \<Longrightarrow>
     exclusive s' \<and> undoStack s' = undoStack s @ [getCurrentStateSnapshot c] \<and> redoStack s' = []"
  by (auto simp: manager_defs backgroundDefault_updater_def lightingDefault_updater_def
      exclusive_def)

lemma allExclusive_garmentSelect_of:
  "allExclusive c \<Longrightarrow> allExclusive s \<Longrightarrow>
   allExclusive (fst (handleGarmentSelect_of c remote f g s))"
  by (auto simp: garmentSelect_defs Let_def finallyBlock_def allExclusive_def exclusive_def getCurrentStateSnapshot_def
      split: sum.splits option.splits dest!: commit_exclusive)

lemma allExclusive_garmentSelect:
  "allExclusive s \<Longrightarrow> allExclusive (fst (handleGarmentSelect remote f g s))"
  by (simp add: handleGarmentSelect_def allExclusive_garmentSelect_of)

lemma allExclusive_revert: "allExclusive s \<Longrightarrow> allExclusive (handleRevertToLayer index s)"
  by (auto simp: handleRevertToLayer_def allExclusive_def exclusive_def getCurrentStateSnapshot_def split: option.splits
      dest!: commit_exclusive)

lemma allExclusive_crop: "allExclusive s \<Longrightarrow> allExclusive (handleImageCrop u s)"
  by (auto simp: handleImageCrop_def Let_def allExclusive_def exclusive_def getCurrentStateSnapshot_def split: option.splits
      dest!: commit_exclusive)

lemma allExclusive_poseSelect:
  "allExclusive s \<Longrightarrow> handlePoseSelect remote i s = Inr (s', calls) \<Longrightarrow> allExclusive s'"
  by (auto simp: handlePoseSelect_def Let_def finallyBlock_def poseSelect_pending_def
      allExclusive_def exclusive_def getCurrentStateSnapshot_def split: sum.splits option.splits if_splits dest!: commit_exclusive)

lemma allExclusive_colorChange:
  "allExclusive s \<Longrightarrow> handleColorChangeAtIndex remote i arg s = Inr (s', calls) \<Longrightarrow> allExclusive s'"
  by (auto simp: handleColorChangeAtIndex_def Let_def finallyBlock_def allExclusive_def exclusive_def getCurrentStateSnapshot_def
      split: sum.splits option.splits if_splits dest!: commit_exclusive)

lemma allExclusive_magicWand:
  "allExclusive s \<Longrightarrow> handleMagicWandEditAtIndex remote i arg s = Inr (s', calls) \<Longrightarrow> allExclusive s'"
  by (auto simp: handleMagicWandEditAtIndex_def Let_def finallyBlock_def allExclusive_def exclusive_def getCurrentStateSnapshot_def
      split: sum.splits option.splits if_splits dest!: commit_exclusive)

lemma allExclusive_background:
  "allExclusive s \<Longrightarrow> allExclusive (fst (handleBackgroundChange remote arg s))"
  by (auto simp: handleBackgroundChange_def Let_def finallyBlock_def allExclusive_def exclusive_def getCurrentStateSnapshot_def
      split: sum.splits option.splits
      dest!: commit_exclusive commit_default_exclusive [rotated])

lemma allExclusive_lighting:
  "allExclusive s \<Longrightarrow> allExclusive (fst (handleLightingChange remote arg s))"
  by (auto simp: handleLightingChange_def Let_def finallyBlock_def allExclusive_def exclusive_def getCurrentStateSnapshot_def
      split: sum.splits option.splits
      dest!: commit_exclusive commit_default_exclusive [rotated])

lemma allExclusive_lookbook:
  "allExclusive s \<Longrightarrow> allExclusive (fst (handleGenerateLookbook remote arg s))"
  by (auto simp: handleGenerateLookbook_def Let_def finallyBlock_def split: sum.splits)

lemma reachable_allExclusive: "reachable s \<Longrightarrow> allExclusive s"
proof (induction rule: reachable.induct)
  case initial
  show ?case by (simp add: initialApp_def allExclusive_def exclusive_def)
next
  case (modelFinalized s u)
  then show ?case by (simp add: handleModelFinalized_def newLayer_eq allExclusive_def exclusive_def)
next
  case (startOver s)
  show ?case by (simp add: handleStartOver_def allExclusive_def exclusive_def)
next
  case (settled c s updater g img k i arg s')
  from settled.hyps(3,4)
  have "exclusive s' \<and> undoStack s' = undoStack s @ [getCurrentStateSnapshot c] \<and> redoStack s' = []"
    by (auto dest: commit_exclusive)
  then show ?case
    using settled.IH
    by (simp add: finallyBlock_def allExclusive_def exclusive_def getCurrentStateSnapshot_def)
next
  case (undo s)
  from undo.IH show ?case by (rule allExclusive_undo)
next
  case (redo s)
  from redo.IH show ?case by (rule allExclusive_redo)
next
  case (garmentSelect s remote f g)
  from garmentSelect.IH show ?case by (rule allExclusive_garmentSelect)
next
  case (revertToLayer s index)
  from revertToLayer.IH show ?case by (rule allExclusive_revert)
next
  case (poseSelect s remote i s' calls)
  from poseSelect.IH poseSelect.hyps(2) show ?case by (rule allExclusive_poseSelect)
next
  case (colorChange s remote i arg s' calls)
  from colorChange.IH colorChange.hyps(2) show ?case by (rule allExclusive_colorChange)
next
  case (backgroundChange s remote arg)
  from backgroundChange.IH show ?case by (rule allExclusive_background)
next
  case (lightingChange s remote arg)
  from lightingChange.IH show ?case by (rule allExclusive_lighting)
next
  case (magicWand s remote i arg s' calls)
  from magicWand.IH magicWand.hyps(2) show ?case by (rule allExclusive_magicWand)
next
  case (lookbook s remote arg)
  from lookbook.IH show ?case by (rule allExclusive_lookbook)
next
  case (openCrop s)
  then show ?case by (simp add: handleOpenCropModal_def)
next
  case (imageCrop s u)
  from imageCrop.IH show ?case by (rule allExclusive_crop)
next
  case (started s m)
  then show ?case by simp
next
  case (startedPose s i)
  then show ?case by (simp add: poseSelect_pending_def)
next
  case (merged s g)
  then show ?case by simp
next
  case (lookbookShown s u)
  then show ?case by (simp add: finallyBlock_def)
next
  case (failed s m)
  then show ?case by (simp add: finallyBlock_def)
next
  case (failedPose c s m)
  then show ?case by (simp add: finallyBlock_def)
next
  case (garmentSelectOf c s remote f g)
  from garmentSelectOf.IH show ?case by (rule allExclusive_garmentSelect_of)
next
  case (sheetToggled s)
  then show ?case by simp
next
  case (templatesShown s b)
  then show ?case by simp
next
  case (lookbookClosed s)
  then show ?case by simp
next
  case (cropClosed s)
  then show ?case by simp
qed

lemma modifier_commit:
  assumes "\<not> falsy (baseImageForModification c)"
  shows "\<exists>s2. updateStateWithHistory c (background_updater k img arg) s1 = Some s2
            \<and> activeBackground s2 = arg \<and> activeLighting s2 = ''Default''"
    and "\<exists>s2. updateStateWithHistory c (lighting_updater k img arg) s1 = Some s2
            \<and> activeLighting s2 = arg \<and> activeBackground s2 = ''Default''"
proof -
  obtain layer where "at (outfitHistory c) (currentOutfitIndex c) = Some layer"
    using assms by (auto simp: baseImageForModification_def falsy_def split: option.splits)
  then show "\<exists>s2. updateStateWithHistory c (background_updater k img arg) s1 = Some s2
            \<and> activeBackground s2 = arg \<and> activeLighting s2 = ''Default''"
    and "\<exists>s2. updateStateWithHistory c (lighting_updater k img arg) s1 = Some s2
            \<and> activeLighting s2 = arg \<and> activeBackground s2 = ''Default''"
    by (auto simp: manager_defs background_updater_def lighting_updater_def alloc_def
        split: option.splits prod.splits)
qed

lemma background_success:
  assumes "snd (handleBackgroundChange remote arg s) = [req]" "remote req = Inr img"
  shows "activeBackground (fst (handleBackgroundChange remote arg s)) = arg
       \<and> arg \<noteq> ''Default''
       \<and> activeLighting (fst (handleBackgroundChange remote arg s)) = ''Default''"
proof -
  have g: "\<not> isLoading s" "arg \<noteq> ''Default''" "\<not> falsy (baseImageForModification s)"
    using assms(1)
    by (auto simp: handleBackgroundChange_def Let_def split: if_splits option.splits)
  obtain b where b: "baseImageForModification s = Some b"
    using g(3) by (cases "baseImageForModification s") (simp_all add: falsy_def)
  have req: "req = ChangeBackground b (promptForAPI arg)"
    using assms(1) g
    by (auto simp: handleBackgroundChange_def Let_def b split: sum.splits option.splits)
  from modifier_commit(1) [OF g(3)]
  obtain s2 where "updateStateWithHistory s
        (background_updater (poseKey (currentPoseIndex s)) img arg)
        (s\<lparr> error := None, isLoading := True, loadingMessage := tr ''app.loading.background'' \<rparr>)
        = Some s2" "activeBackground s2 = arg" "activeLighting s2 = ''Default''"
    by blast
  then show ?thesis
    using g assms(2)
    by (simp add: handleBackgroundChange_def Let_def b req [symmetric] finallyBlock_def)
qed

lemma lighting_success:
  assumes "snd (handleLightingChange remote arg s) = [req]" "remote req = Inr img"
  shows "activeLighting (fst (handleLightingChange remote arg s)) = arg
       \<and> arg \<noteq> ''Default''
       \<and> activeBackground (fst (handleLightingChange remote arg s)) = ''Default''"
proof -
  have g: "\<not> isLoading s" "arg \<noteq> ''Default''" "\<not> falsy (baseImageForModification s)"
    using assms(1)
    by (auto simp: handleLightingChange_def Let_def split: if_splits option.splits)
  obtain b where b: "baseImageForModification s = Some b"
    using g(3) by (cases "baseImageForModification s") (simp_all add: falsy_def)
  have req: "req = ChangeLighting b arg"
    using assms(1) g
    by (auto simp: handleLightingChange_def Let_def b split: sum.splits option.splits)
  from modifier_commit(2) [OF g(3)]
  obtain s2 where "updateStateWithHistory s
        (lighting_updater (poseKey (currentPoseIndex s)) img arg)
        (s\<lparr> error := None, isLoading := True, loadingMessage := tr ''app.loading.lighting'' \<rparr>)
        = Some s2" "activeLighting s2 = arg" "activeBackground s2 = ''Default''"
    by blast
  then show ?thesis
    using g assms(2)
    by (simp add: handleLightingChange_def Let_def b req [symmetric] finallyBlock_def)
qed

lemma select_default:
  assumes "\<not> isLoading s"
  shows "handleBackgroundChange remote ''Default'' s =
           (s\<lparr> activeBackground := ''Default'',
               undoStack := undoStack s @ [getCurrentStateSnapshot s], redoStack := [] \<rparr>, [])"
    and "handleLightingChange remote ''Default'' s =
           (s\<lparr> activeLighting := ''Default'',
               undoStack := undoStack s @ [getCurrentStateSnapshot s], redoStack := [] \<rparr>, [])"
  using assms
  by (simp_all add: handleBackgroundChange_def handleLightingChange_def manager_defs
      backgroundDefault_updater_def lightingDefault_updater_def)

text \<open>
  Claim C4. In every reachable state at least one of \<open>activeBackground\<close> and
  \<open>activeLighting\<close> is \<open>Default\<close>. A background change whose request the generator answers
  sets \<open>activeBackground\<close> to the (non-default) prompt and \<open>activeLighting\<close> to \<open>Default\<close>;
  a lighting change does the same with the roles exchanged. Selecting \<open>Default\<close> for one
  modifier, while no generation is in flight, sets that modifier to \<open>Default\<close> and leaves
  the other one as it is (the previous snapshot goes on the undo stack).
\<close>

theorem modifiers_exclusive:
  assumes "reachable s"
  shows "(activeBackground s = ''Default'' \<or> activeLighting s = ''Default'')
       \<and> (snd (handleBackgroundChange remote arg s) = [req] \<and> remote req = Inr img \<longrightarrow>
            activeBackground (fst (handleBackgroundChange remote arg s)) = arg
            \<and> arg \<noteq> ''Default''
            \<and> activeLighting (fst (handleBackgroundChange remote arg s)) = ''Default'')
       \<and> (snd (handleLightingChange remote arg s) = [req] \<and> remote req = Inr img \<longrightarrow>
            activeLighting (fst (handleLightingChange remote arg s)) = arg
            \<and> arg \<noteq> ''Default''
            \<and> activeBackground (fst (handleLightingChange remote arg s)) = ''Default'')
       \<and> (\<not> isLoading s \<longrightarrow>
            handleBackgroundChange remote ''Default'' s =
              (s\<lparr> activeBackground := ''Default'',
                  undoStack := undoStack s @ [getCurrentStateSnapshot s], redoStack := [] \<rparr>, [])
            \<and> handleLightingChange remote ''Default'' s =
              (s\<lparr> activeLighting := ''Default'',
                  undoStack := undoStack s @ [getCurrentStateSnapshot s], redoStack := [] \<rparr>, []))"
proof -
  have "allExclusive s"
    using assms by (rule reachable_allExclusive)
  then have "activeBackground s = ''Default'' \<or> activeLighting s = ''Default''"
    by (simp add: allExclusive_def exclusive_def)
  then show ?thesis
    using background_success [of remote arg s req img] lighting_success [of remote arg s req img]
      select_default [of s remote]
    by blast
qed

lemma base_modelState: "baseImageForModification modelState = Some ''A''"
  by (simp add: baseImageForModification_def modelState_eq at_def baseLayer_def store_defs)

lemma brightState_eq:
  "brightState =
     modelState\<lparr> activeLighting := ''Bright studio lighting'',
                 undoStack := [getCurrentStateSnapshot modelState],
                 heap := [[(poseKey 0, ''A'')], [], [(poseKey 0, ''A-bright'')]] \<rparr>"
proof -
  have u: "updateStateWithHistory modelState
             (lighting_updater (poseKey 0) ''A-bright'' ''Bright studio lighting'') s1 =
           Some (s1\<lparr> outfitHistory := [baseLayer], currentOutfitIndex := 0, currentPoseIndex := 0,
                     activeBackground := ''Default'',
                     activeLighting := ''Bright studio lighting'',
                     undoStack := undoStack s1 @ [getCurrentStateSnapshot modelState],
                     redoStack := [],
                     heap := hset (heap s1) 2 (poseKey 0) ''A-bright'' \<rparr>)" for s1
    by (simp add: manager_defs lighting_updater_def modelState_eq at_def baseLayer_def)
  have "currentPoseIndex modelState = 0" "\<not> isLoading modelState"
    by (simp_all add: modelState_eq)
  then show ?thesis
    by (simp add: brightState_def handleLightingChange_def Let_def base_modelState falsy_def
        answers_def u finallyBlock_def)
       (simp add: modelState_eq hset_def hget_def)
qed

lemma background_commit_base:
  assumes "outfitHistory c = [baseLayer]" "currentOutfitIndex c = 0"
  shows "updateStateWithHistory c (background_updater k img arg) s1 =
           Some (s1\<lparr> outfitHistory := [baseLayer], currentOutfitIndex := 0,
                     currentPoseIndex := currentPoseIndex c,
                     activeBackground := arg, activeLighting := ''Default'',
                     undoStack := undoStack s1 @ [getCurrentStateSnapshot c],
                     redoStack := [],
                     heap := hset (heap s1) 1 k img \<rparr>)"
  using assms
  by (simp add: manager_defs background_updater_def at_def baseLayer_def)

lemma cafeState_eq:
  "cafeState =
     brightState\<lparr> activeBackground := ''A Parisian street cafe'', activeLighting := ''Default'',
                  undoStack := undoStack brightState @ [getCurrentStateSnapshot brightState],
                  heap := [[(poseKey 0, ''A'')], [(poseKey 0, ''A-paris'')],
                           [(poseKey 0, ''A-bright'')]] \<rparr>"
proof -
  have m: "outfitHistory brightState = [baseLayer]" "currentOutfitIndex brightState = 0"
    "currentPoseIndex brightState = 0" "\<not> isLoading brightState"
    by (simp_all add: brightState_eq) (simp_all add: modelState_eq)
  have b: "baseImageForModification brightState = Some ''A''"
    by (simp add: baseImageForModification_def brightState_eq)
       (simp add: modelState_eq at_def baseLayer_def store_defs)
  show ?thesis
    by (simp add: cafeState_def handleBackgroundChange_def Let_def b falsy_def
        answers_def background_commit_base [OF m(1,2)] m finallyBlock_def)
       (simp add: brightState_eq modelState_eq hset_def hget_def)
qed

theorem modifiers_exclusive_witness:
  "reachable brightState \<and> reachable cafeState
   \<and> activeBackground brightState = ''Default''
   \<and> activeLighting brightState = ''Bright studio lighting''
   \<and> snd (handleBackgroundChange (answers ''A-paris'') ''A Parisian street cafe'' brightState) =
       [ChangeBackground ''A'' ''A Parisian street cafe'']
   \<and> answers ''A-paris'' (ChangeBackground ''A'' ''A Parisian street cafe'') = Inr ''A-paris''
   \<and> activeBackground cafeState = ''A Parisian street cafe''
   \<and> activeLighting cafeState = ''Default''
   \<and> snd (handleLightingChange (answers ''A-warm'') ''Warm, golden hour lighting'' cafeState) =
       [ChangeLighting ''A'' ''Warm, golden hour lighting'']
   \<and> answers ''A-warm'' (ChangeLighting ''A'' ''Warm, golden hour lighting'') = Inr ''A-warm''
   \<and> activeLighting
         (fst (handleLightingChange (answers ''A-warm'') ''Warm, golden hour lighting'' cafeState)) =
       ''Warm, golden hour lighting''
   \<and> activeBackground
         (fst (handleLightingChange (answers ''A-warm'') ''Warm, golden hour lighting'' cafeState)) =
       ''Default''
   \<and> \<not> isLoading brightState
   \<and> activeBackground
         (fst (handleBackgroundChange (answers ''A-paris'') ''Default'' brightState)) = ''Default''
   \<and> activeLighting
         (fst (handleBackgroundChange (answers ''A-paris'') ''Default'' brightState)) =
       ''Bright studio lighting''"
proof -
  have r: "reachable brightState"
    unfolding brightState_def modelState_def
    by (intro reachable.lightingChange reachable.modelFinalized reachable.initial)
  then have r': "reachable cafeState"
    unfolding cafeState_def by (rule reachable.backgroundChange)
  have f: "activeBackground brightState = ''Default''"
    "activeLighting brightState = ''Bright studio lighting''" "\<not> isLoading brightState"
    by (simp_all add: brightState_eq) (simp add: modelState_eq)+
  have b: "baseImageForModification brightState = Some ''A''"
    by (simp add: baseImageForModification_def brightState_eq)
       (simp add: modelState_eq at_def baseLayer_def store_defs)
  have sent: "snd (handleBackgroundChange (answers ''A-paris'') ''A Parisian street cafe'' brightState)
              = [ChangeBackground ''A'' ''A Parisian street cafe'']"
    using f(3)
    by (simp add: handleBackgroundChange_def Let_def b falsy_def promptForAPI_def answers_def
        split: option.splits)
  have ok: "answers ''A-paris'' (ChangeBackground ''A'' ''A Parisian street cafe'') = Inr ''A-paris''"
    by (simp add: answers_def)
  have c: "baseImageForModification cafeState = Some ''A''" "\<not> isLoading cafeState"
    by (simp_all add: baseImageForModification_def cafeState_eq)
       (simp_all add: brightState_eq modelState_eq at_def baseLayer_def store_defs)
  have sent': "snd (handleLightingChange (answers ''A-warm'') ''Warm, golden hour lighting'' cafeState)
              = [ChangeLighting ''A'' ''Warm, golden hour lighting'']"
    using c(2)
    by (simp add: handleLightingChange_def Let_def c(1) falsy_def answers_def split: option.splits)
  have ok': "answers ''A-warm'' (ChangeLighting ''A'' ''Warm, golden hour lighting'') = Inr ''A-warm''"
    by (simp add: answers_def)
  from modifiers_exclusive [OF r, of "answers ''A-paris''" "''A Parisian street cafe''"
      "ChangeBackground ''A'' ''A Parisian street cafe''" "''A-paris''"]
    modifiers_exclusive [OF r', of "answers ''A-warm''" "''Warm, golden hour lighting''"
      "ChangeLighting ''A'' ''Warm, golden hour lighting''" "''A-warm''"]
  show ?thesis
    using r r' f sent ok sent' ok' by (simp add: cafeState_def)
qed

section \<open>Undo after a pose, background or lighting generation\<close>

lemma posedState_run:
  "handlePoseSelect (answers ''A-turned'') 1 modelState =
     Inr (modelState\<lparr> currentPoseIndex := 1,
                      undoStack := [getCurrentStateSnapshot modelState],
                      heap := [[(poseKey 0, ''A''), (poseKey 1, ''A-turned'')], [], []] \<rparr>,
          [GeneratePoseVariation ''A'' (poseKey 1)])"
proof -
  have u: "updateStateWithHistory modelState (poseSelect_updater k ''A-turned'' 1) s1 =
           Some (s1\<lparr> outfitHistory := [baseLayer], currentOutfitIndex := 0, currentPoseIndex := 1,
                     activeBackground := ''Default'', activeLighting := ''Default'',
                     undoStack := undoStack s1 @ [getCurrentStateSnapshot modelState],
                     redoStack := [],
                     heap := hset (heap s1) 0 k ''A-turned'' \<rparr>)" for s1 k
    by (simp add: manager_defs poseSelect_updater_def modelState_eq at_def baseLayer_def)
  have b: "at (outfitHistory modelState) (currentOutfitIndex modelState) = Some baseLayer"
    "hget (heap modelState) (poseImages baseLayer) = [(poseKey 0, ''A'')]"
    "\<not> isLoading modelState" "outfitHistory modelState \<noteq> []" "currentPoseIndex modelState = 0"
    by (simp_all add: modelState_eq at_def baseLayer_def hget_def)
  show ?thesis
    by (simp add: handlePoseSelect_def b Let_def getProp_def firstValue_def poseKey_0 poseKey_1
        truthy_def falsy_def answers_def finallyBlock_def u)
       (simp add: poseSelect_pending_def modelState_eq hset_def hget_def poseKey_0 poseKey_1)
qed

lemma posedState_eq:
  "posedState = modelState\<lparr> currentPoseIndex := 1,
                      undoStack := [getCurrentStateSnapshot modelState],
                      heap := [[(poseKey 0, ''A''), (poseKey 1, ''A-turned'')], [], []] \<rparr>"
  by (simp add: posedState_def posedState_run)

lemma parisState_eq:
  "parisState =
     modelState\<lparr> activeBackground := ''A Parisian street cafe'',
                 undoStack := [getCurrentStateSnapshot modelState],
                 heap := [[(poseKey 0, ''A'')], [(poseKey 0, ''A-paris'')], []] \<rparr>"
proof -
  have m: "outfitHistory modelState = [baseLayer]" "currentOutfitIndex modelState = 0"
    "currentPoseIndex modelState = 0" "\<not> isLoading modelState"
    by (simp_all add: modelState_eq)
  show ?thesis
    by (simp add: parisState_def handleBackgroundChange_def Let_def base_modelState falsy_def
        answers_def background_commit_base [OF m(1,2)] m finallyBlock_def)
       (simp add: modelState_eq hset_def hget_def)
qed

lemma beachState_eq:
  "beachState =
     modelState\<lparr> activeBackground := ''A serene beach at sunset'',
                 undoStack := [getCurrentStateSnapshot modelState,
                               getCurrentStateSnapshot parisState],
                 heap := [[(poseKey 0, ''A'')], [(poseKey 0, ''A-beach'')], []] \<rparr>"
proof -
  have m: "outfitHistory parisState = [baseLayer]" "currentOutfitIndex parisState = 0"
    "currentPoseIndex parisState = 0" "\<not> isLoading parisState"
    by (simp_all add: parisState_eq) (simp_all add: modelState_eq)
  have b: "baseImageForModification parisState = Some ''A''"
    by (simp add: baseImageForModification_def parisState_eq)
       (simp add: modelState_eq at_def baseLayer_def store_defs)
  show ?thesis
    by (simp add: beachState_def handleBackgroundChange_def Let_def b falsy_def
        answers_def background_commit_base [OF m(1,2)] m finallyBlock_def)
       (simp add: parisState_eq modelState_eq hset_def hget_def)
qed

text \<open>
  Claim C1 at two inputs. On the model, select the second pose and undo: the snapshot has
  the old pose index again, but the pose images of its layer (and of the layer of the
  snapshot that was on the undo stack) hold the generated image, because the reducer has
  assigned it into the object that the old layer refers to. With the Parisian background
  active, change the background to the beach and undo: the active background is the
  Parisian one again, but the image displayed is the beach image, since the background
  cache of the layer was overwritten in place.
\<close>

theorem undo_after_generation_keeps_image:
  "handlePoseSelect (answers ''A-turned'') 1 modelState =
     Inr (posedState, [GeneratePoseVariation ''A'' (poseKey 1)])
   \<and> snapshotView (heap modelState) (getCurrentStateSnapshot modelState) =
       ([(None, [(poseKey 0, ''A'')], Some [], Some [])], 0, 0, ''Default'', ''Default'')
   \<and> undoStack posedState = [getCurrentStateSnapshot modelState]
   \<and> snapshotView (heap (handleUndo posedState)) (getCurrentStateSnapshot (handleUndo posedState)) =
       ([(None, [(poseKey 0, ''A''), (poseKey 1, ''A-turned'')], Some [], Some [])],
        0, 0, ''Default'', ''Default'')
   \<and> handleBackgroundChange (answers ''A-beach'') ''A serene beach at sunset'' parisState =
       (beachState, [ChangeBackground ''A'' ''A serene beach at sunset''])
   \<and> activeBackground parisState = ''A Parisian street cafe''
   \<and> displayImageUrl parisState = Some ''A-paris''
   \<and> activeBackground (handleUndo beachState) = ''A Parisian street cafe''
   \<and> displayImageUrl (handleUndo beachState) = Some ''A-beach''"
proof -
  have 1: "handlePoseSelect (answers ''A-turned'') 1 modelState =
     Inr (posedState, [GeneratePoseVariation ''A'' (poseKey 1)])"
    by (simp add: posedState_run posedState_eq)
  have 2: "snapshotView (heap modelState) (getCurrentStateSnapshot modelState) =
       ([(None, [(poseKey 0, ''A'')], Some [], Some [])], 0, 0, ''Default'', ''Default'')"
    by (simp add: snapshotView_def layerView_def getCurrentStateSnapshot_def modelState_eq
        baseLayer_def hget_def)
  have 3: "undoStack posedState = [getCurrentStateSnapshot modelState]"
    by (simp add: posedState_eq)
  have 4: "snapshotView (heap (handleUndo posedState)) (getCurrentStateSnapshot (handleUndo posedState)) =
       ([(None, [(poseKey 0, ''A''), (poseKey 1, ''A-turned'')], Some [], Some [])],
        0, 0, ''Default'', ''Default'')"
    by (simp add: handleUndo_def posedState_eq Let_def applyStateSnapshot_def
        getCurrentStateSnapshot_def snapshotView_def)
       (simp add: modelState_eq baseLayer_def hget_def layerView_def)
  have b: "baseImageForModification parisState = Some ''A''" "\<not> isLoading parisState"
    by (simp_all add: baseImageForModification_def parisState_eq)
       (simp_all add: modelState_eq at_def baseLayer_def store_defs)
  have 5: "handleBackgroundChange (answers ''A-beach'') ''A serene beach at sunset'' parisState =
       (beachState, [ChangeBackground ''A'' ''A serene beach at sunset''])"
    using modifier_commit(1) [of parisState "poseKey (currentPoseIndex parisState)" "''A-beach''"
        "''A serene beach at sunset''"]
    by (auto simp add: beachState_def handleBackgroundChange_def Let_def b falsy_def answers_def
        promptForAPI_def split: option.splits)
  have 6: "activeBackground parisState = ''A Parisian street cafe''"
    by (simp add: parisState_eq)
  have 7: "displayImageUrl parisState = Some ''A-paris''"
    by (simp add: displayImageUrl_def parisState_eq Let_def)
       (simp add: modelState_eq at_def baseLayer_def store_defs truthy_def)
  have u: "handleUndo beachState =
      beachState\<lparr> activeBackground := ''A Parisian street cafe'',
                   undoStack := [getCurrentStateSnapshot modelState],
                   redoStack := [getCurrentStateSnapshot beachState] \<rparr>"
    by (simp add: handleUndo_def Let_def beachState_eq applyStateSnapshot_def)
       (simp add: getCurrentStateSnapshot_def parisState_eq modelState_eq)
  have 8: "activeBackground (handleUndo beachState) = ''A Parisian street cafe''"
    by (simp add: u)
  have 9: "displayImageUrl (handleUndo beachState) = Some ''A-beach''"
    by (simp add: u displayImageUrl_def Let_def)
       (simp add: beachState_eq modelState_eq at_def baseLayer_def store_defs truthy_def)
  show ?thesis
    using 1 2 3 4 5 6 7 8 9 by blast
qed

text \<open>The part of the claim that holds in general: redo reverses undo, on the whole state.\<close>

lemma redo_after_undo:
  assumes "undoStack s \<noteq> []"
  shows "handleRedo (handleUndo s) = s"
proof -
  obtain ys y where u: "undoStack s = ys @ [y]"
    using assms by (cases "undoStack s" rule: rev_cases) auto
  have snap: "\<lparr> outfitHistory = outfitHistory y, currentOutfitIndex = currentOutfitIndex y,
                currentPoseIndex = currentPoseIndex y, activeBackground = activeBackground y,
                activeLighting = activeLighting y \<rparr> = y"
    by simp
  show ?thesis
    by (simp add: handleUndo_def handleRedo_def Let_def applyStateSnapshot_def
        getCurrentStateSnapshot_def u snap)
qed

text \<open>
  The reducers that build new objects (apply garment, colour change, magic wand, crop) do
  restore the contents on undo: the store only grows, so what the old layers refer to is
  as it was.
\<close>

lemma layerView_grown:
  "allocated h layer \<Longrightarrow> layerView (h @ new) layer = layerView h layer"
  by (auto simp: allocated_def layerView_def split: option.splits)

lemma snapshotView_grown:
  "list_all (allocated h) (outfitHistory snap) \<Longrightarrow> snapshotView (h @ new) snap = snapshotView h snap"
  by (simp add: snapshotView_def list_all_iff layerView_grown)

lemma undo_after_allocation:
  assumes "list_all (allocated (heap s)) (outfitHistory s)"
    and "undoStack s' = undoStack s @ [getCurrentStateSnapshot s]"
    and "heap s' = heap s @ new"
  shows "snapshotView (heap (handleUndo s')) (getCurrentStateSnapshot (handleUndo s')) =
           snapshotView (heap s) (getCurrentStateSnapshot s)"
proof -
  have "getCurrentStateSnapshot (handleUndo s') = getCurrentStateSnapshot s"
    "heap (handleUndo s') = heap s @ new"
    using assms(2,3)
    by (simp_all add: handleUndo_def Let_def applyStateSnapshot_def getCurrentStateSnapshot_def)
  then show ?thesis
    using assms(1) by (simp add: snapshotView_grown getCurrentStateSnapshot_def)
qed

lemma undo_after_garmentSelect:
  assumes "list_all (allocated (heap s)) (outfitHistory s)"
    and "handleGarmentSelect remote garmentFile garmentInfo s = (s', [req])"
    and "remote req = Inr img"
  shows "snapshotView (heap (handleUndo s')) (getCurrentStateSnapshot (handleUndo s')) =
           snapshotView (heap s) (getCurrentStateSnapshot s)"
  using assms(1)
  by (rule undo_after_allocation) (simp_all add: garmentSelect_success [OF assms(2,3)])

lemma undo_after_crop:
  assumes "list_all (allocated (heap s)) (outfitHistory s)"
    and "0 \<le> currentOutfitIndex s" "currentOutfitIndex s < int (length (outfitHistory s))"
    and "croppedImageUrl \<noteq> []"
  shows "snapshotView (heap (handleUndo (handleImageCrop croppedImageUrl s)))
           (getCurrentStateSnapshot (handleUndo (handleImageCrop croppedImageUrl s))) =
         snapshotView (heap s) (getCurrentStateSnapshot s)"
  using assms(1)
  by (rule undo_after_allocation)
     (simp_all add: handleImageCrop_def Let_def crop_commit [OF assms(2,3)] assms(4))

end
